theory Spec2Isabelle
  imports Complex_Main "HOL-Library.Word"
begin

section \<open>Prioritized level replay: the level sampler\<close>

text \<open>
  A shallow embedding of \<^verbatim>\<open>src/level_replay/level_sampler.py\<close> (class
  \<^verbatim>\<open>LevelSampler\<close>). Floating-point numbers are modelled in exact arithmetic: a float is
  a real number or one of the three non-finite values of IEEE arithmetic. Rounding,
  overflow of finite values and the sign of zero are not modelled (a division by zero
  takes the divisor as \<^verbatim>\<open>+0.0\<close>). The integers of the array \<^verbatim>\<open>partial_seed_steps\<close> are 64-bit
  words, read as signed, whose sum wraps around as that of \<^verbatim>\<open>np.int64\<close> does. The numpy arrays
  of the sampler are lists; an exception
  of the Python code is a value of type \<open>error\<close>, and since the arrays are mutated in place,
  every method returns the sampler as the exception (if any) leaves it.
\<close>

subsection \<open>Floats\<close>

datatype npfloat = Fin real | PInf | NInf | NaN

fun np_neg :: "npfloat \<Rightarrow> npfloat" where
  "np_neg (Fin a) = Fin (- a)"
| "np_neg PInf = NInf"
| "np_neg NInf = PInf"
| "np_neg NaN = NaN"

fun np_add :: "npfloat \<Rightarrow> npfloat \<Rightarrow> npfloat" where
  "np_add (Fin a) (Fin b) = Fin (a + b)"
| "np_add NaN y = NaN"
| "np_add x NaN = NaN"
| "np_add PInf NInf = NaN"
| "np_add NInf PInf = NaN"
| "np_add PInf y = PInf"
| "np_add x PInf = PInf"
| "np_add NInf y = NInf"
| "np_add x NInf = NInf"

definition np_sub :: "npfloat \<Rightarrow> npfloat \<Rightarrow> npfloat" where
  "np_sub x y = np_add x (np_neg y)"

fun np_abs :: "npfloat \<Rightarrow> npfloat" where
  "np_abs (Fin a) = Fin \<bar>a\<bar>"
| "np_abs PInf = PInf"
| "np_abs NInf = PInf"
| "np_abs NaN = NaN"

text \<open>The sign of a float: \<open>None\<close> for NaN.\<close>

fun np_sign :: "npfloat \<Rightarrow> int option" where
  "np_sign (Fin a) = Some (if a < 0 then - 1 else if a = 0 then 0 else 1)"
| "np_sign PInf = Some 1"
| "np_sign NInf = Some (- 1)"
| "np_sign NaN = None"

definition signed_inf :: "int \<Rightarrow> npfloat" where
  "signed_inf sg = (if sg < 0 then NInf else if sg = 0 then NaN else PInf)"

fun np_mul :: "npfloat \<Rightarrow> npfloat \<Rightarrow> npfloat" where
  "np_mul (Fin a) (Fin b) = Fin (a * b)"
| "np_mul x y =
     (case (np_sign x, np_sign y) of
        (Some sx, Some sy) \<Rightarrow> signed_inf (sx * sy)
      | _ \<Rightarrow> NaN)"

fun np_div :: "npfloat \<Rightarrow> npfloat \<Rightarrow> npfloat" where
  "np_div (Fin a) (Fin b) =
     (if b \<noteq> 0 then Fin (a / b)
      else if a = 0 then NaN else if 0 < a then PInf else NInf)"
| "np_div NaN y = NaN"
| "np_div x NaN = NaN"
| "np_div (Fin a) y = Fin 0"
| "np_div x (Fin b) =
     (case np_sign x of
        Some sx \<Rightarrow> signed_inf (if b < 0 then - sx else sx)
      | None \<Rightarrow> NaN)"
| "np_div x y = NaN"

fun np_lt :: "npfloat \<Rightarrow> npfloat \<Rightarrow> bool" where
  "np_lt (Fin a) (Fin b) = (a < b)"
| "np_lt NaN y = False"
| "np_lt x NaN = False"
| "np_lt x NInf = False"
| "np_lt PInf y = False"
| "np_lt NInf y = True"
| "np_lt x PInf = True"

definition np_gt :: "npfloat \<Rightarrow> npfloat \<Rightarrow> bool" where
  "np_gt x y = np_lt y x"

definition np_eq :: "npfloat \<Rightarrow> npfloat \<Rightarrow> bool" where
  "np_eq x y = (x \<noteq> NaN \<and> y \<noteq> NaN \<and> x = y)"

definition np_ne :: "npfloat \<Rightarrow> npfloat \<Rightarrow> bool" where
  "np_ne x y = (\<not> np_eq x y)"

definition np_ge :: "npfloat \<Rightarrow> npfloat \<Rightarrow> bool" where
  "np_ge x y = (np_gt x y \<or> np_eq x y)"

definition np_le :: "npfloat \<Rightarrow> npfloat \<Rightarrow> bool" where
  "np_le x y = np_ge y x"

fun np_exp :: "npfloat \<Rightarrow> npfloat" where
  "np_exp (Fin a) = Fin (exp a)"
| "np_exp PInf = PInf"
| "np_exp NInf = Fin 0"
| "np_exp NaN = NaN"

text \<open>\<^verbatim>\<open>np.log\<close> of a Python float.\<close>

definition np_log :: "real \<Rightarrow> npfloat" where
  "np_log x = (if 0 < x then Fin (ln x) else if x = 0 then NInf else NaN)"

text \<open>
  \<^verbatim>\<open>x ** y\<close> for a float \<open>x\<close> and a finite exponent \<open>y\<close>, as C's \<^verbatim>\<open>pow\<close> defines it:
  a negative base has a power only for an integer exponent.
\<close>

definition is_int :: "real \<Rightarrow> bool" where
  "is_int y = (y = of_int \<lfloor>y\<rfloor>)"

fun np_pow :: "npfloat \<Rightarrow> real \<Rightarrow> npfloat" where
  "np_pow (Fin x) y =
     (if y = 0 then Fin 1
      else if 0 < x then Fin (x powr y)
      else if x = 0 then (if 0 < y then Fin 0 else PInf)
      else if is_int y then Fin (x powi \<lfloor>y\<rfloor>) else NaN)"
| "np_pow PInf y = (if y = 0 then Fin 1 else if 0 < y then PInf else Fin 0)"
| "np_pow NInf y =
     (if y = 0 then Fin 1 else if y < 0 then Fin 0
      else if is_int y \<and> odd \<lfloor>y\<rfloor> then NInf else PInf)"
| "np_pow NaN y = (if y = 0 then Fin 1 else NaN)"

text \<open>\<^verbatim>\<open>np.isclose(x, y)\<close> with the default tolerances \<^verbatim>\<open>rtol=1e-05, atol=1e-08\<close>.\<close>

fun np_isclose :: "npfloat \<Rightarrow> npfloat \<Rightarrow> bool" where
  "np_isclose (Fin a) (Fin b) = (\<bar>a - b\<bar> \<le> 1 / 10 ^ 8 + \<bar>b\<bar> / 10 ^ 5)"
| "np_isclose x y = np_eq x y"

text \<open>\<^verbatim>\<open>np.sum\<close> of a one-dimensional array.\<close>

definition np_sum :: "npfloat list \<Rightarrow> npfloat" where
  "np_sum xs = foldl np_add (Fin 0) xs"

text \<open>
  \<^verbatim>\<open>scores.max()\<close> and \<^verbatim>\<open>scores.argmax()\<close> of a non-empty array: a NaN is the maximum if there
  is one, and \<^verbatim>\<open>argmax\<close> is the first index that holds the maximum.
\<close>

definition np_maximum :: "npfloat \<Rightarrow> npfloat \<Rightarrow> npfloat" where
  "np_maximum x y = (if x = NaN \<or> y = NaN then NaN else if np_lt x y then y else x)"

definition np_max :: "npfloat list \<Rightarrow> npfloat" where
  "np_max xs = foldl np_maximum (hd xs) (tl xs)"

definition np_argmax :: "npfloat list \<Rightarrow> nat" where
  "np_argmax xs = hd (filter (\<lambda>i. xs ! i = np_max xs) [0..<length xs])"

text \<open>
  \<^verbatim>\<open>scores.argsort()\<close>: the indices in ascending order of their values, NaN last. The
  order of equal values is the order of their indices (numpy sorts short arrays by
  insertion; for long arrays it promises no order among equal values).
\<close>

fun sorts_before :: "npfloat \<Rightarrow> npfloat \<Rightarrow> bool" where
  "sorts_before x NaN = True"
| "sorts_before NaN y = False"
| "sorts_before x y = (\<not> np_lt y x)"

fun insert_index :: "npfloat list \<Rightarrow> nat \<Rightarrow> nat list \<Rightarrow> nat list" where
  "insert_index xs i [] = [i]"
| "insert_index xs i (j # js) =
     (if sorts_before (xs ! i) (xs ! j) then i # j # js else j # insert_index xs i js)"

definition np_argsort :: "npfloat list \<Rightarrow> nat list" where
  "np_argsort xs = foldr (insert_index xs) [0..<length xs] []"

subsection \<open>Exceptions and arrays\<close>

datatype error =
    ValueError | KeyError | IndexError | ZeroDivisionError | RuntimeError | UnboundLocalError

text \<open>
  \<^verbatim>\<open>xs[i]\<close> for an index that is not negative (the indices of the sampler come from
  \<^verbatim>\<open>range\<close> and \<^verbatim>\<open>enumerate\<close>): out of range, it raises.
\<close>

definition getitem :: "'a list \<Rightarrow> nat \<Rightarrow> error + 'a" where
  "getitem xs i = (if i < length xs then Inr (xs ! i) else Inl IndexError)"

definition getitem2 :: "'a list list \<Rightarrow> nat \<Rightarrow> nat \<Rightarrow> error + 'a" where
  "getitem2 xss a i =
     (case getitem xss a of Inl e \<Rightarrow> Inl e | Inr row \<Rightarrow> getitem row i)"

text \<open>\<^verbatim>\<open>xss[a][i] = v\<close> on an array whose cell \<open>(a, i)\<close> exists.\<close>

definition setitem2 :: "'a list list \<Rightarrow> nat \<Rightarrow> nat \<Rightarrow> 'a \<Rightarrow> 'a list list" where
  "setitem2 xss a i v = xss[a := (xss ! a)[i := v]]"

text \<open>
  An element-wise binary operation on two one-dimensional arrays, for numpy and for torch:
  arrays of the same length are combined pointwise, an array of length one is broadcast,
  and any other pair of shapes raises (\<^verbatim>\<open>ValueError\<close> in numpy, \<^verbatim>\<open>RuntimeError\<close> in torch).
\<close>

definition broadcast2 :: "error \<Rightarrow> ('a \<Rightarrow> 'a \<Rightarrow> 'a) \<Rightarrow> 'a list \<Rightarrow> 'a list \<Rightarrow> error + 'a list" where
  "broadcast2 err f xs ys =
     (if length xs = length ys then Inr (map2 f xs ys)
      else if length xs = 1 then Inr (map (f (hd xs)) ys)
      else if length ys = 1 then Inr (map (\<lambda>x. f x (hd ys)) xs)
      else Inl err)"

definition np_elementwise ::
  "(npfloat \<Rightarrow> npfloat \<Rightarrow> npfloat) \<Rightarrow> npfloat list \<Rightarrow> npfloat list \<Rightarrow> error + npfloat list" where
  "np_elementwise = broadcast2 ValueError"

subsection \<open>The sampler\<close>

text \<open>
  The fields of \<^verbatim>\<open>LevelSampler\<close>. The configuration values are Python numbers and are taken
  to be finite; \<open>num_actions\<close> is \<^verbatim>\<open>action_space.n\<close>; \<^verbatim>\<open>obs_space\<close> is never read and left out.
\<close>

record sampler =
  num_actions :: int
  strategy :: string
  replay_schedule :: string
  score_transform :: string
  temperature :: real
  eps :: real
  rho :: real
  nu :: real
  alpha :: real
  staleness_coef :: real
  staleness_transform :: string
  staleness_temperature :: real
  seeds :: "int list"
  seed2index :: "int \<rightharpoonup> nat"
  unseen_seed_weights :: "npfloat list"
  seed_scores :: "npfloat list"
  partial_seed_scores :: "npfloat list list"
  partial_seed_steps :: "64 word list list"
  seed_staleness :: "npfloat list"
  next_seed_index :: nat

text \<open>
  \<^verbatim>\<open>{seed: i for i, seed in enumerate(seeds)}\<close>: a seed that occurs twice keeps its last
  index.
\<close>

definition seed_index_dict :: "int list \<Rightarrow> (int \<rightharpoonup> nat)" where
  "seed_index_dict sds = map_of (rev (zip sds [0..<length sds]))"

text \<open>\<^verbatim>\<open>__init__\<close>, its arguments in the order of the source (without \<^verbatim>\<open>obs_space\<close>).\<close>

definition init_sampler ::
  "int list \<Rightarrow> int \<Rightarrow> nat \<Rightarrow> string \<Rightarrow> string \<Rightarrow> string \<Rightarrow> real \<Rightarrow> real \<Rightarrow> real \<Rightarrow> real \<Rightarrow> real
   \<Rightarrow> real \<Rightarrow> string \<Rightarrow> real \<Rightarrow> sampler" where
  "init_sampler sds n_actions num_actors strat schedule transform temp epsilon rho0 nu0 alpha0
     st_coef st_transform st_temp =
     \<lparr> num_actions = n_actions, strategy = strat, replay_schedule = schedule,
       score_transform = transform, temperature = temp, eps = epsilon, rho = rho0, nu = nu0,
       alpha = alpha0, staleness_coef = st_coef, staleness_transform = st_transform,
       staleness_temperature = st_temp,
       seeds = sds, seed2index = seed_index_dict sds,
       unseen_seed_weights = replicate (length sds) (Fin 1),
       seed_scores = replicate (length sds) (Fin 0),
       partial_seed_scores = replicate num_actors (replicate (length sds) (Fin 0)),
       partial_seed_steps = replicate num_actors (replicate (length sds) 0),
       seed_staleness = replicate (length sds) (Fin 0),
       next_seed_index = 0 \<rparr>"

text \<open>
  The shapes \<^verbatim>\<open>__init__\<close> gives the arrays: no method changes them.
\<close>

definition wf_sampler :: "sampler \<Rightarrow> bool" where
  "wf_sampler s =
     (length (unseen_seed_weights s) = length (seeds s)
      \<and> length (seed_scores s) = length (seeds s)
      \<and> length (seed_staleness s) = length (seeds s)
      \<and> length (partial_seed_steps s) = length (partial_seed_scores s)
      \<and> list_all (\<lambda>row. length row = length (seeds s)) (partial_seed_scores s)
      \<and> list_all (\<lambda>row. length row = length (seeds s)) (partial_seed_steps s))"

subsection \<open>Score updates\<close>

text \<open>
  \<^verbatim>\<open>_partial_update_seed_score\<close>: the merge of a segment's score into the accumulator of
  \<open>(actor_index, seed_idx)\<close>. The result is the merged score and the sampler. The stored
  number of steps is an \<^verbatim>\<open>np.int64\<close>, so \<^verbatim>\<open>running_num_steps\<close> is a 64-bit sum that wraps
  around, and \<^verbatim>\<open>float(running_num_steps)\<close> is its signed value. The argument \<^verbatim>\<open>num_steps\<close> is a
  Python integer (a length, or 0 in \<^verbatim>\<open>after_update\<close>), taken to lie in the range of
  \<^verbatim>\<open>np.int64\<close>.
\<close>

definition partial_update_seed_score ::
  "sampler \<Rightarrow> nat \<Rightarrow> nat \<Rightarrow> npfloat \<Rightarrow> int \<Rightarrow> bool \<Rightarrow> (error + npfloat) \<times> sampler" where
  "partial_update_seed_score s actor_index seed_idx score num_steps done =
     (case getitem2 (partial_seed_scores s) actor_index seed_idx of
        Inl e \<Rightarrow> (Inl e, s)
      | Inr partial_score \<Rightarrow>
     (case getitem2 (partial_seed_steps s) actor_index seed_idx of
        Inl e \<Rightarrow> (Inl e, s)
      | Inr partial_num_steps \<Rightarrow>
          let running_num_steps = partial_num_steps + word_of_int num_steps;
              merged_score =
                np_add partial_score
                  (np_div (np_mul (np_sub score partial_score) (Fin (of_int num_steps)))
                     (Fin (of_int (sint running_num_steps))))
          in if done then
               (Inr merged_score,
                s\<lparr> partial_seed_scores := setitem2 (partial_seed_scores s) actor_index seed_idx (Fin 0),
                   partial_seed_steps := setitem2 (partial_seed_steps s) actor_index seed_idx 0 \<rparr>)
             else
               (Inr merged_score,
                s\<lparr> partial_seed_scores :=
                     setitem2 (partial_seed_scores s) actor_index seed_idx merged_score,
                   partial_seed_steps :=
                     setitem2 (partial_seed_steps s) actor_index seed_idx running_num_steps \<rparr>)))"

text \<open>\<^verbatim>\<open>update_seed_score\<close>: the update of a finished segment.\<close>

definition update_seed_score ::
  "sampler \<Rightarrow> nat \<Rightarrow> nat \<Rightarrow> npfloat \<Rightarrow> int \<Rightarrow> (error + unit) \<times> sampler" where
  "update_seed_score s actor_index seed_idx score num_steps =
     (case partial_update_seed_score s actor_index seed_idx score num_steps True of
        (Inl e, s1) \<Rightarrow> (Inl e, s1)
      | (Inr score', s1) \<Rightarrow>
          if \<not> seed_idx < length (unseen_seed_weights s1) then (Inl IndexError, s1)
          else
            let s2 = s1\<lparr> unseen_seed_weights := (unseen_seed_weights s1)[seed_idx := Fin 0] \<rparr>
            in (case getitem (seed_scores s2) seed_idx of
                  Inl e \<Rightarrow> (Inl e, s2)
                | Inr old_score \<Rightarrow>
                    (Inr (),
                     s2\<lparr> seed_scores := (seed_scores s2)[seed_idx :=
                           np_add (np_mul (Fin (1 - alpha s2)) old_score)
                             (np_mul (Fin (alpha s2)) score')] \<rparr>)))"

text \<open>
  A run of segment updates of one \<open>(actor_index, seed_idx)\<close>: each segment is a pair of
  its number of steps and its score; the last one is a finished segment if \<open>done\<close>. The
  result is the merged score the last update returned.
\<close>

fun merge_segments ::
  "sampler \<Rightarrow> nat \<Rightarrow> nat \<Rightarrow> (int \<times> real) list \<Rightarrow> bool \<Rightarrow> npfloat \<Rightarrow> (error + npfloat) \<times> sampler" where
  "merge_segments s actor_index seed_idx [] done merged = (Inr merged, s)"
| "merge_segments s actor_index seed_idx ((n, x) # segs) done merged =
     (case partial_update_seed_score s actor_index seed_idx (Fin x) n (done \<and> segs = []) of
        (Inl e, s1) \<Rightarrow> (Inl e, s1)
      | (Inr merged', s1) \<Rightarrow> merge_segments s1 actor_index seed_idx segs done merged')"

subsection \<open>Score functions\<close>

text \<open>
  A score function reads one segment of a rollout: torch tensors, modelled as lists of
  real numbers (the rollout is taken to hold finite values). \<open>kw_episode_logits\<close> is the
  segment's \<^verbatim>\<open>[steps, actions]\<close> tensor of log-probabilities; the three other entries of
  \<^verbatim>\<open>kwargs\<close> are present only for the strategies that need them. A failing torch operation
  is the error \<open>RuntimeError\<close>. Every score function takes the sampler, which only
  \<^verbatim>\<open>_average_entropy\<close> reads (the others are static methods).
\<close>

record score_kwargs =
  kw_episode_logits :: "real list list"
  kw_returns :: "real list option"
  kw_rewards :: "real list option"
  kw_value_preds :: "real list option"

text \<open>\<^verbatim>\<open>kwargs[key]\<close> for an entry that may be absent.\<close>

definition kwarg :: "'a option \<Rightarrow> error + 'a" where
  "kwarg v = (case v of None \<Rightarrow> Inl KeyError | Some x \<Rightarrow> Inr x)"

text \<open>\<^verbatim>\<open>tensor.mean().item()\<close>: the mean of no element is NaN.\<close>

definition tensor_mean :: "real list \<Rightarrow> npfloat" where
  "tensor_mean xs = (if xs = [] then NaN else Fin (sum_list xs / real (length xs)))"

definition average_entropy :: "sampler \<Rightarrow> score_kwargs \<Rightarrow> error + npfloat" where
  "average_entropy s kwargs =
     (let episode_logits = kw_episode_logits kwargs;
          n = num_actions s
      in if n = 0 then Inl ZeroDivisionError
         else
           let max_entropy =
                 np_mul (np_mul (Fin (- (1 / of_int n))) (np_log (1 / of_int n))) (Fin (of_int n))
           in Inr (np_div
                     (tensor_mean (map (\<lambda>row. sum_list (map (\<lambda>l. - exp l * l) row)) episode_logits))
                     max_entropy))"

definition average_least_confidence :: "sampler \<Rightarrow> score_kwargs \<Rightarrow> error + npfloat" where
  "average_least_confidence s kwargs =
     (let episode_logits = kw_episode_logits kwargs
      in if list_ex (\<lambda>row. row = []) episode_logits then Inl RuntimeError
         else Inr (tensor_mean (map (\<lambda>row. 1 - exp (Max (set row))) episode_logits)))"

text \<open>\<^verbatim>\<open>topk(2, dim=-1)[0]\<close> of one row: its two largest entries, the largest first.\<close>

definition top2 :: "real list \<Rightarrow> real \<times> real" where
  "top2 row = (let srt = rev (sort row) in (srt ! 0, srt ! 1))"

definition average_min_margin :: "sampler \<Rightarrow> score_kwargs \<Rightarrow> error + npfloat" where
  "average_min_margin s kwargs =
     (let episode_logits = kw_episode_logits kwargs
      in if list_ex (\<lambda>row. length row < 2) episode_logits then Inl RuntimeError
         else
           Inr (np_sub (Fin 1)
                  (tensor_mean
                     (map (\<lambda>row. exp (fst (top2 row)) - exp (snd (top2 row))) episode_logits))))"

definition average_gae :: "sampler \<Rightarrow> score_kwargs \<Rightarrow> error + npfloat" where
  "average_gae s kwargs =
     (case kwarg (kw_returns kwargs) of Inl e \<Rightarrow> Inl e | Inr returns \<Rightarrow>
      case kwarg (kw_value_preds kwargs) of Inl e \<Rightarrow> Inl e | Inr value_preds \<Rightarrow>
      case broadcast2 RuntimeError (\<lambda>x y. x - y) returns value_preds of
        Inl e \<Rightarrow> Inl e
      | Inr advantages \<Rightarrow> Inr (tensor_mean advantages))"

definition average_value_l1 :: "sampler \<Rightarrow> score_kwargs \<Rightarrow> error + npfloat" where
  "average_value_l1 s kwargs =
     (case kwarg (kw_returns kwargs) of Inl e \<Rightarrow> Inl e | Inr returns \<Rightarrow>
      case kwarg (kw_value_preds kwargs) of Inl e \<Rightarrow> Inl e | Inr value_preds \<Rightarrow>
      case broadcast2 RuntimeError (\<lambda>x y. x - y) returns value_preds of
        Inl e \<Rightarrow> Inl e
      | Inr advantages \<Rightarrow> Inr (tensor_mean (map abs advantages)))"

text \<open>
  \<^verbatim>\<open>_one_step_td_error\<close>. With \<open>max_t = 0\<close> the slice \<^verbatim>\<open>value_preds[:max_t-1]\<close> is
  \<^verbatim>\<open>value_preds[:-1]\<close>.
\<close>

definition one_step_td_error :: "sampler \<Rightarrow> score_kwargs \<Rightarrow> error + npfloat" where
  "one_step_td_error s kwargs =
     (case kwarg (kw_rewards kwargs) of Inl e \<Rightarrow> Inl e | Inr rewards \<Rightarrow>
      case kwarg (kw_value_preds kwargs) of Inl e \<Rightarrow> Inl e | Inr value_preds \<Rightarrow>
        let max_t = length rewards;
            preds_now = (if max_t = 0 then butlast value_preds else take (max_t - 1) value_preds);
            preds_next = drop 1 (take max_t value_preds)
        in case broadcast2 RuntimeError (\<lambda>x y. x + y) (butlast rewards) preds_now of
             Inl e \<Rightarrow> Inl e
           | Inr added \<Rightarrow>
          (case broadcast2 RuntimeError (\<lambda>x y. x - y) added preds_next of
             Inl e \<Rightarrow> Inl e
           | Inr td_errors \<Rightarrow> Inr (tensor_mean (map abs (map abs td_errors)))))"

definition requires_value_buffers :: "sampler \<Rightarrow> bool" where
  "requires_value_buffers s = (strategy s \<in> set [''gae'', ''value_l1'', ''one_step_td_error''])"

subsection \<open>Updates from a rollout\<close>

text \<open>
  The \<^verbatim>\<open>RolloutStorage\<close> of the training loop, as far as the sampler reads it. A tensor
  \<^verbatim>\<open>[steps, actors]\<close> is the list of its rows, all of one length; a tensor without rows
  counts as one without actors.
\<close>

record rollouts =
  level_seeds :: "int list list"
  action_log_dist :: "real list list list"
  masks :: "real list list"
  returns :: "real list list"
  rewards :: "real list list"
  value_preds :: "real list list"

definition width :: "'a list list \<Rightarrow> nat" where
  "width xss = (case xss of [] \<Rightarrow> 0 | row # _ \<Rightarrow> length row)"

text \<open>\<^verbatim>\<open>tensor[start:stop, j]\<close>; \<open>stop = None\<close> is \<^verbatim>\<open>tensor[start:, j]\<close>.\<close>

definition column_slice :: "'a list list \<Rightarrow> nat \<Rightarrow> nat option \<Rightarrow> nat \<Rightarrow> error + 'a list" where
  "column_slice xss start stop j =
     (if j < width xss then
        Inr (map (\<lambda>row. row ! j)
               (drop start (case stop of None \<Rightarrow> xss | Some t \<Rightarrow> take t xss)))
      else Inl IndexError)"

definition log_softmax :: "real list \<Rightarrow> real list" where
  "log_softmax row = map (\<lambda>x. x - ln (sum_list (map exp row))) row"

text \<open>
  What both kinds of segment have in common (lines 163--176 and 182--195): the index of
  the segment's seed, the arguments of the score function, the score and the number of
  steps of the segment \<^verbatim>\<open>[start_t:stop]\<close> of an actor.
\<close>

definition segment_score ::
  "sampler \<Rightarrow> rollouts \<Rightarrow> (sampler \<Rightarrow> score_kwargs \<Rightarrow> error + npfloat) \<Rightarrow> nat \<Rightarrow> nat \<Rightarrow> nat option
   \<Rightarrow> error + (nat \<times> npfloat \<times> int)" where
  "segment_score s r score_function actor_index start_t stop =
     (case getitem2 (level_seeds r) start_t actor_index of Inl e \<Rightarrow> Inl e | Inr seed_t \<Rightarrow>
      case seed2index s seed_t of None \<Rightarrow> Inl KeyError | Some seed_idx_t \<Rightarrow>
      case column_slice (action_log_dist r) start_t stop actor_index of
        Inl e \<Rightarrow> Inl e
      | Inr episode_logits \<Rightarrow>
      case (if requires_value_buffers s then
              (case column_slice (returns r) start_t stop actor_index of
                 Inl e \<Rightarrow> Inl e
               | Inr rets \<Rightarrow>
               case column_slice (rewards r) start_t stop actor_index of
                 Inl e \<Rightarrow> Inl e
               | Inr rews \<Rightarrow>
               case column_slice (value_preds r) start_t stop actor_index of
                 Inl e \<Rightarrow> Inl e
               | Inr vals \<Rightarrow>
                   Inr \<lparr> kw_episode_logits = map log_softmax episode_logits,
                         kw_returns = Some rets, kw_rewards = Some rews,
                         kw_value_preds = Some vals \<rparr>)
            else
              Inr \<lparr> kw_episode_logits = map log_softmax episode_logits,
                    kw_returns = None, kw_rewards = None, kw_value_preds = None \<rparr>) of
        Inl e \<Rightarrow> Inl e
      | Inr score_function_kwargs \<Rightarrow>
      case score_function s score_function_kwargs of
        Inl e \<Rightarrow> Inl e
      | Inr score \<Rightarrow> Inr (seed_idx_t, score, int (length episode_logits)))"

text \<open>
  The loop over an actor's \<^verbatim>\<open>done_steps\<close> (lines 156--179), from the current \<open>start_t\<close>: it
  returns the \<open>start_t\<close> it ends with.
\<close>

fun done_steps_loop ::
  "sampler \<Rightarrow> rollouts \<Rightarrow> (sampler \<Rightarrow> score_kwargs \<Rightarrow> error + npfloat) \<Rightarrow> nat \<Rightarrow> nat \<Rightarrow> nat list
   \<Rightarrow> nat \<Rightarrow> (error + nat) \<times> sampler" where
  "done_steps_loop s r score_function actor_index total_steps [] start_t = (Inr start_t, s)"
| "done_steps_loop s r score_function actor_index total_steps (t # ts) start_t =
     (if \<not> start_t < total_steps then (Inr start_t, s)
      else if t = 0 then
        done_steps_loop s r score_function actor_index total_steps ts start_t
      else
        (case segment_score s r score_function actor_index start_t (Some t) of
           Inl e \<Rightarrow> (Inl e, s)
         | Inr (seed_idx_t, score, num_steps) \<Rightarrow>
          (case update_seed_score s actor_index seed_idx_t score num_steps of
             (Inl e, s1) \<Rightarrow> (Inl e, s1)
           | (Inr u, s1) \<Rightarrow>
               done_steps_loop s1 r score_function actor_index total_steps ts t)))"

text \<open>
  Lines 149 and 153: the steps of an actor whose mask is not positive, at most
  \<^verbatim>\<open>total_steps\<close> of them.
\<close>

definition done_steps :: "rollouts \<Rightarrow> nat \<Rightarrow> nat \<Rightarrow> error + nat list" where
  "done_steps r total_steps actor_index =
     (case column_slice (masks r) 0 None actor_index of
        Inl e \<Rightarrow> Inl e
      | Inr mask_column \<Rightarrow>
          Inr (take total_steps
                 (filter (\<lambda>t. \<not> 0 < mask_column ! t) [0..<length mask_column])))"

text \<open>One round of the loop over the actors (lines 153--196).\<close>

definition update_actor ::
  "sampler \<Rightarrow> rollouts \<Rightarrow> (sampler \<Rightarrow> score_kwargs \<Rightarrow> error + npfloat) \<Rightarrow> nat \<Rightarrow> nat
   \<Rightarrow> (error + unit) \<times> sampler" where
  "update_actor s r score_function total_steps actor_index =
     (case done_steps r total_steps actor_index of
        Inl e \<Rightarrow> (Inl e, s)
      | Inr ds \<Rightarrow>
         (case done_steps_loop s r score_function actor_index total_steps ds 0 of
            (Inl e, s1) \<Rightarrow> (Inl e, s1)
          | (Inr start_t, s1) \<Rightarrow>
              if start_t < total_steps then
                (case segment_score s1 r score_function actor_index start_t None of
                   Inl e \<Rightarrow> (Inl e, s1)
                 | Inr (seed_idx_t, score, num_steps) \<Rightarrow>
                  (case partial_update_seed_score s1 actor_index seed_idx_t score num_steps
                          False of
                     (Inl e, s2) \<Rightarrow> (Inl e, s2)
                   | (Inr m, s2) \<Rightarrow> (Inr (), s2)))
              else (Inr (), s1)))"

fun actors_loop ::
  "sampler \<Rightarrow> rollouts \<Rightarrow> (sampler \<Rightarrow> score_kwargs \<Rightarrow> error + npfloat) \<Rightarrow> nat \<Rightarrow> nat list
   \<Rightarrow> (error + unit) \<times> sampler" where
  "actors_loop s r score_function total_steps [] = (Inr (), s)"
| "actors_loop s r score_function total_steps (actor_index # rest) =
     (case update_actor s r score_function total_steps actor_index of
        (Inl e, s1) \<Rightarrow> (Inl e, s1)
      | (Inr u, s1) \<Rightarrow> actors_loop s1 r score_function total_steps rest)"

text \<open>\<^verbatim>\<open>_update_with_rollouts\<close>.\<close>

definition update_with_rollouts_scored ::
  "sampler \<Rightarrow> rollouts \<Rightarrow> (sampler \<Rightarrow> score_kwargs \<Rightarrow> error + npfloat) \<Rightarrow> (error + unit) \<times> sampler" where
  "update_with_rollouts_scored s r score_function =
     (let policy_logits = action_log_dist r;
          total_steps = length policy_logits;
          num_actors = width policy_logits
      in actors_loop s r score_function total_steps [0..<num_actors])"

text \<open>\<^verbatim>\<open>update_with_rollouts\<close>.\<close>

definition update_with_rollouts :: "sampler \<Rightarrow> rollouts \<Rightarrow> (error + unit) \<times> sampler" where
  "update_with_rollouts s r =
     (if strategy s = ''random'' then (Inr (), s)
      else if strategy s = ''policy_entropy'' then update_with_rollouts_scored s r average_entropy
      else if strategy s = ''least_confidence'' then
        update_with_rollouts_scored s r average_least_confidence
      else if strategy s = ''min_margin'' then update_with_rollouts_scored s r average_min_margin
      else if strategy s = ''gae'' then update_with_rollouts_scored s r average_gae
      else if strategy s = ''value_l1'' then update_with_rollouts_scored s r average_value_l1
      else if strategy s = ''one_step_td_error'' then
        update_with_rollouts_scored s r one_step_td_error
      else (Inl ValueError, s))"

subsection \<open>After a policy update\<close>

text \<open>The two nested loops of \<^verbatim>\<open>after_update\<close>, over the cells still to visit.\<close>

fun flush_partials :: "sampler \<Rightarrow> (nat \<times> nat) list \<Rightarrow> (error + unit) \<times> sampler" where
  "flush_partials s [] = (Inr (), s)"
| "flush_partials s ((actor_index, seed_idx) # cells) =
     (case getitem2 (partial_seed_scores s) actor_index seed_idx of
        Inl e \<Rightarrow> (Inl e, s)
      | Inr p \<Rightarrow>
          if np_ne p (Fin 0) then
            (case update_seed_score s actor_index seed_idx (Fin 0) 0 of
               (Inl e, s1) \<Rightarrow> (Inl e, s1)
             | (Inr u, s1) \<Rightarrow> flush_partials s1 cells)
          else flush_partials s cells)"

definition after_update :: "sampler \<Rightarrow> (error + unit) \<times> sampler" where
  "after_update s =
     (case flush_partials s
             (List.product [0..<length (partial_seed_scores s)]
                [0..<width (partial_seed_scores s)]) of
        (Inl e, s1) \<Rightarrow> (Inl e, s1)
      | (Inr u, s1) \<Rightarrow>
          (Inr (),
           s1\<lparr> partial_seed_scores := map (map (\<lambda>x. Fin 0)) (partial_seed_scores s1),
               partial_seed_steps := map (map (\<lambda>n. 0)) (partial_seed_steps s1) \<rparr>))"

subsection \<open>Random draws\<close>

text \<open>
  The draws of numpy's global random generator are explicit inputs: \<open>rand\<close> is the value of
  \<^verbatim>\<open>np.random.rand()\<close> in \<^verbatim>\<open>sample\<close>, \<open>choice_uniform\<close> the uniform number in \<open>[0, 1)\<close> that
  \<^verbatim>\<open>np.random.choice\<close> draws when it is given probabilities, and the three others the integer
  that \<^verbatim>\<open>np.random.choice\<close> draws when it is given none (in \<^verbatim>\<open>sample\<close>, and in the \<^verbatim>\<open>max\<close>
  transform of the scores and of the staleness).
\<close>

record draws =
  rand :: real
  choice_uniform :: real
  choice_int :: nat
  max_choice_scores :: nat
  max_choice_staleness :: nat

text \<open>
  \<^verbatim>\<open>np.random.choice(a)\<close> for a one-dimensional \<open>a\<close>: an element at a uniformly drawn index
  (the drawn integer \<open>k\<close>, reduced into the range of the indices).
\<close>

definition random_choice :: "'a list \<Rightarrow> nat \<Rightarrow> error + 'a" where
  "random_choice a k = (if a = [] then Inl ValueError else Inr (a ! (k mod length a)))"

text \<open>\<^verbatim>\<open>p.cumsum()\<close>.\<close>

fun np_cumsum :: "npfloat \<Rightarrow> npfloat list \<Rightarrow> npfloat list" where
  "np_cumsum acc [] = []"
| "np_cumsum acc (x # xs) = np_add acc x # np_cumsum (np_add acc x) xs"

text \<open>
  \<^verbatim>\<open>np.random.choice(range(n), 1, p=p)[0]\<close>, after numpy's implementation: the probabilities
  must be as many as the elements, none negative, and sum to 1 within \<open>sqrt(eps) = 2\<^sup>-\<^sup>2\<^sup>6\<close>;
  the index is the number of entries of the normalised cumulative sum that are at most the
  uniform draw \<open>u\<close> (\<^verbatim>\<open>searchsorted\<close> to the right).
\<close>

definition random_choice_p :: "nat \<Rightarrow> npfloat list \<Rightarrow> real \<Rightarrow> error + nat" where
  "random_choice_p n p u =
     (if n = 0 then Inl ValueError
      else if length p \<noteq> n then Inl ValueError
      else if np_sum p = NaN then Inl ValueError
      else if list_ex (\<lambda>x. np_lt x (Fin 0)) p then Inl ValueError
      else if np_gt (np_abs (np_sub (np_sum p) (Fin 1))) (Fin (1 / 2 ^ 26)) then Inl ValueError
      else
        let cdf = np_cumsum (Fin 0) p;
            cdf = map (\<lambda>c. np_div c (last cdf)) cdf
        in Inr (length (filter (\<lambda>c. np_le c (Fin u)) cdf)))"

subsection \<open>Sampling weights\<close>

text \<open>
  \<^verbatim>\<open>_score_transform\<close>. The array \<open>scores\<close> is the sampler's own array (\<^verbatim>\<open>seed_scores\<close> or
  \<^verbatim>\<open>seed_staleness\<close>), passed by reference. In the branch \<^verbatim>\<open>max\<close>, \<^verbatim>\<open>scores = scores[:]\<close> is a
  view of that array, not a copy, so the assignment of \<^verbatim>\<open>-inf\<close> writes into the sampler's
  array: the function returns the weights and the array as it leaves it. \<open>k\<close> is the
  integer drawn by \<^verbatim>\<open>np.random.choice\<close>.
\<close>

definition score_transform_fn ::
  "sampler \<Rightarrow> string \<Rightarrow> real \<Rightarrow> npfloat list \<Rightarrow> nat \<Rightarrow> (error + npfloat list) \<times> npfloat list" where
  "score_transform_fn s transform temp scores k =
     (if transform = ''constant'' then (Inr (map (\<lambda>x. Fin 1) scores), scores)
      else if transform = ''max'' then
        (if length (unseen_seed_weights s) \<noteq> length scores then (Inl IndexError, scores)
         else
           let scores' =
                 map2 (\<lambda>u x. if np_gt u (Fin 0) then NInf else x) (unseen_seed_weights s) scores
           in if scores' = [] then (Inl ValueError, scores')
              else
                (case random_choice
                        (filter (\<lambda>i. np_isclose (scores' ! i) (np_max scores'))
                           [0..<length scores']) k of
                   Inl e \<Rightarrow> (Inl e, scores')
                 | Inr argmax \<Rightarrow> (Inr ((map (\<lambda>x. Fin 0) scores')[argmax := Fin 1]), scores')))
      else if transform = ''eps_greedy'' then
        (if scores = [] then (Inl ValueError, scores)
         else if length (seeds s) = 0 then (Inl ZeroDivisionError, scores)
         else
           (Inr (map (\<lambda>w. np_add w (Fin (eps s / real (length (seeds s)))))
                   ((map (\<lambda>x. Fin 0) scores)[np_argmax scores := Fin (1 - eps s)])),
            scores))
      else if transform = ''rank'' then
        (if temp = 0 then (Inl ZeroDivisionError, scores)
         else
           let tmp = rev (np_argsort scores);
               ranks = map (\<lambda>i. length (takeWhile (\<lambda>j. j \<noteq> i) tmp) + 1) [0..<length tmp]
           in (Inr (map (\<lambda>rank. np_div (Fin 1) (np_pow (Fin (real rank)) (1 / temp))) ranks),
               scores))
      else if transform = ''power'' then
        (let eps0 = (if 0 < staleness_coef s then 0 else 1 / 1000)
         in if temp = 0 then (Inl ZeroDivisionError, scores)
            else (Inr (map (\<lambda>x. np_pow (np_add x (Fin eps0)) (1 / temp)) scores), scores))
      else if transform = ''softmax'' then
        (Inr (map (\<lambda>x. np_exp (np_div x (Fin temp))) scores), scores)
      else (Inl UnboundLocalError, scores))"

text \<open>Lines 269 and 278: the weights of the unseen levels are set to zero.\<close>

definition masked_weights :: "sampler \<Rightarrow> npfloat list \<Rightarrow> error + npfloat list" where
  "masked_weights s weights =
     np_elementwise np_mul weights (map (\<lambda>u. np_sub (Fin 1) u) (unseen_seed_weights s))"

text \<open>Lines 269--273 and 278--281: mask the unseen levels, normalise a positive sum.\<close>

definition mask_and_normalize :: "sampler \<Rightarrow> npfloat list \<Rightarrow> error + npfloat list" where
  "mask_and_normalize s weights =
     (case masked_weights s weights of
        Inl e \<Rightarrow> Inl e
      | Inr weights' \<Rightarrow>
          let z = np_sum weights'
          in if np_gt z (Fin 0) then Inr (map (\<lambda>w. np_div w z) weights') else Inr weights')"

text \<open>
  \<^verbatim>\<open>sample_weights\<close>: the weights, and the sampler with what \<^verbatim>\<open>_score_transform\<close> wrote
  into its arrays.
\<close>

definition sample_weights :: "sampler \<Rightarrow> draws \<Rightarrow> (error + npfloat list) \<times> sampler" where
  "sample_weights s d =
     (case score_transform_fn s (score_transform s) (temperature s) (seed_scores s)
             (max_choice_scores d) of
        (r1, scores') \<Rightarrow>
     let s1 = s\<lparr> seed_scores := scores' \<rparr>
     in case r1 of Inl e \<Rightarrow> (Inl e, s1) | Inr weights0 \<Rightarrow>
        case mask_and_normalize s1 weights0 of Inl e \<Rightarrow> (Inl e, s1) | Inr weights \<Rightarrow>
          if 0 < staleness_coef s1 then
            (case score_transform_fn s1 (staleness_transform s1) (staleness_temperature s1)
                    (seed_staleness s1) (max_choice_staleness d) of
               (r2, staleness') \<Rightarrow>
            let s2 = s1\<lparr> seed_staleness := staleness' \<rparr>
            in case r2 of Inl e \<Rightarrow> (Inl e, s2) | Inr staleness_weights0 \<Rightarrow>
               case mask_and_normalize s2 staleness_weights0 of
                 Inl e \<Rightarrow> (Inl e, s2)
               | Inr staleness_weights \<Rightarrow>
               case np_elementwise np_add
                      (map (\<lambda>w. np_mul (Fin (1 - staleness_coef s2)) w) weights)
                      (map (\<lambda>w. np_mul (Fin (staleness_coef s2)) w) staleness_weights) of
                 Inl e \<Rightarrow> (Inl e, s2)
               | Inr weights' \<Rightarrow> (Inr weights', s2))
          else (Inr weights, s1))"

subsection \<open>Sampling a level\<close>

definition update_staleness :: "sampler \<Rightarrow> nat \<Rightarrow> (error + unit) \<times> sampler" where
  "update_staleness s selected_idx =
     (if 0 < staleness_coef s then
        let s1 = s\<lparr> seed_staleness := map (\<lambda>x. np_add x (Fin 1)) (seed_staleness s) \<rparr>
        in if selected_idx < length (seed_staleness s1) then
             (Inr (), s1\<lparr> seed_staleness := (seed_staleness s1)[selected_idx := Fin 0] \<rparr>)
           else (Inl IndexError, s1)
      else (Inr (), s))"

text \<open>
  Lines 215--216 of \<^verbatim>\<open>_sample_replay_level\<close>: the probabilities it draws with, from the
  result of \<^verbatim>\<open>sample_weights\<close>.
\<close>

definition replay_probabilities :: "npfloat list \<Rightarrow> npfloat list" where
  "replay_probabilities weights =
     (if np_isclose (np_sum weights) (Fin 0) then
        map (\<lambda>w. np_div (Fin 1) (Fin (real (length weights)))) weights
      else weights)"

text \<open>Lines 218--223 and 227--232: draw an index, reset its staleness, return its seed.\<close>

definition draw_level :: "sampler \<Rightarrow> npfloat list \<Rightarrow> draws \<Rightarrow> (error + int) \<times> sampler" where
  "draw_level s p d =
     (case random_choice_p (length (seeds s)) p (choice_uniform d) of
        Inl e \<Rightarrow> (Inl e, s)
      | Inr seed_idx \<Rightarrow>
     (case getitem (seeds s) seed_idx of
        Inl e \<Rightarrow> (Inl e, s)
      | Inr seed \<Rightarrow>
     (case update_staleness s seed_idx of
        (Inl e, s1) \<Rightarrow> (Inl e, s1)
      | (Inr u, s1) \<Rightarrow> (Inr seed, s1))))"

definition sample_replay_level :: "sampler \<Rightarrow> draws \<Rightarrow> (error + int) \<times> sampler" where
  "sample_replay_level s d =
     (case sample_weights s d of
        (Inl e, s1) \<Rightarrow> (Inl e, s1)
      | (Inr weights, s1) \<Rightarrow> draw_level s1 (replay_probabilities weights) d)"

definition sample_unseen_level :: "sampler \<Rightarrow> draws \<Rightarrow> (error + int) \<times> sampler" where
  "sample_unseen_level s d =
     draw_level s
       (map (\<lambda>u. np_div u (np_sum (unseen_seed_weights s))) (unseen_seed_weights s)) d"

text \<open>
  \<^verbatim>\<open>sample\<close>. Next to its result, the model records which of the two sampling methods the
  call invoked, in the order of the calls.
\<close>

datatype call = SampleReplayLevel | SampleUnseenLevel

definition proportion_seen :: "sampler \<Rightarrow> npfloat" where
  "proportion_seen s =
     (let num_unseen = length (filter (\<lambda>u. np_gt u (Fin 0)) (unseen_seed_weights s))
      in np_div (Fin (of_int (int (length (seeds s)) - int num_unseen)))
           (Fin (real (length (seeds s)))))"

text \<open>Lines 235--236: the argument \<^verbatim>\<open>strategy\<close> of \<^verbatim>\<open>sample\<close>, unless it is \<^verbatim>\<open>None\<close> or empty.\<close>

definition effective_strategy :: "sampler \<Rightarrow> string option \<Rightarrow> string" where
  "effective_strategy s strategy_arg =
     (case strategy_arg of
        None \<Rightarrow> strategy s
      | Some name \<Rightarrow> if name = [] then strategy s else name)"

definition sample :: "sampler \<Rightarrow> string option \<Rightarrow> draws \<Rightarrow> call list \<times> (error + int) \<times> sampler" where
  "sample s strategy_arg d =
     (let strategy' = effective_strategy s strategy_arg
      in if strategy' = ''random'' then
           (case random_choice [0..<length (seeds s)] (choice_int d) of
              Inl e \<Rightarrow> ([], Inl e, s)
            | Inr seed_idx \<Rightarrow> ([], getitem (seeds s) seed_idx, s))
         else if strategy' = ''sequential'' then
           (let seed_idx = next_seed_index s
            in if length (seeds s) = 0 then ([], Inl ZeroDivisionError, s)
               else
                 let s1 = s\<lparr> next_seed_index := (next_seed_index s + 1) mod length (seeds s) \<rparr>
                 in ([], getitem (seeds s1) seed_idx, s1))
         else if replay_schedule s = ''fixed'' then
           (if np_ge (proportion_seen s) (Fin (rho s)) then
              (if nu s < rand d \<or> \<not> np_lt (proportion_seen s) (Fin 1)
               then ([SampleReplayLevel], sample_replay_level s d)
               else ([SampleUnseenLevel], sample_unseen_level s d))
            else ([SampleUnseenLevel], sample_unseen_level s d))
         else
           (if np_ge (proportion_seen s) (Fin (rho s)) \<and> np_lt (Fin (rand d)) (proportion_seen s)
            then ([SampleReplayLevel], sample_replay_level s d)
            else ([SampleUnseenLevel], sample_unseen_level s d)))"

subsection \<open>Auxiliary notions of the properties\<close>

text \<open>
  The mean of an accumulator that holds the score \<open>p\<close> of \<open>m\<close> steps and of the segments
  \<open>segs\<close>, weighted by the numbers of steps.
\<close>

definition weighted_mean :: "real \<Rightarrow> int \<Rightarrow> (int \<times> real) list \<Rightarrow> real" where
  "weighted_mean p m segs =
     (p * of_int m + (\<Sum>(n, x)\<leftarrow>segs. of_int n * x)) / (of_int m + (\<Sum>(n, x)\<leftarrow>segs. of_int n))"

text \<open>
  The result of a weight transform has a positive mass if the transform raised nothing
  and its weights, once the unseen levels are masked, are finite and have a positive sum.
\<close>

fun is_fin :: "npfloat \<Rightarrow> bool" where
  "is_fin (Fin a) = True"
| "is_fin x = False"

fun the_fin :: "npfloat \<Rightarrow> real" where
  "the_fin (Fin a) = a"
| "the_fin x = 0"

definition positive_mass :: "sampler \<Rightarrow> error + npfloat list \<Rightarrow> bool" where
  "positive_mass s r =
     (case r of
        Inl e \<Rightarrow> False
      | Inr weights \<Rightarrow>
          (case masked_weights s weights of
             Inl e \<Rightarrow> False
           | Inr ws \<Rightarrow> list_all is_fin ws \<and> np_gt (np_sum ws) (Fin 0)))"

text \<open>
  One step of the exponential moving average of \<^verbatim>\<open>update_seed_score\<close> (line 78), and the
  scores that the flushes of a list of cells \<open>(actor_index, seed_idx)\<close> leave, given the
  partial scores \<open>P\<close> before the flushes.
\<close>

definition ema_step :: "real \<Rightarrow> npfloat \<Rightarrow> npfloat \<Rightarrow> npfloat" where
  "ema_step a old_score score = np_add (np_mul (Fin (1 - a)) old_score) (np_mul (Fin a) score)"

fun flush_scores :: "real \<Rightarrow> npfloat list list \<Rightarrow> (nat \<times> nat) list \<Rightarrow> npfloat list \<Rightarrow> npfloat list" where
  "flush_scores a P [] scores = scores"
| "flush_scores a P ((actor_index, seed_idx) # cells) scores =
     flush_scores a P cells
       (if np_ne (P ! actor_index ! seed_idx) (Fin 0)
        then scores[seed_idx := ema_step a (scores ! seed_idx) (P ! actor_index ! seed_idx)]
        else scores)"

text \<open>
  The unseen flags never go back to 1: from one state to a later one, every flag keeps
  its value or is 0.
\<close>

definition unseen_monotone :: "sampler \<Rightarrow> sampler \<Rightarrow> bool" where
  "unseen_monotone s s' =
     list_all2 (\<lambda>u u'. u' = u \<or> u' = Fin 0) (unseen_seed_weights s) (unseen_seed_weights s')"

text \<open>
  A cell \<open>(actor_index, seed_idx)\<close> that \<^verbatim>\<open>after_update\<close> can flush: it exists in all the arrays,
  its partial score is finite and, if that score is not zero, its number of steps is not
  zero.
\<close>

definition flushable :: "sampler \<Rightarrow> nat \<times> nat \<Rightarrow> bool" where
  "flushable s c =
     (case c of (a, i) \<Rightarrow>
        a < length (partial_seed_scores s) \<and> i < length (partial_seed_scores s ! a)
        \<and> a < length (partial_seed_steps s) \<and> i < length (partial_seed_steps s ! a)
        \<and> is_fin (partial_seed_scores s ! a ! i)
        \<and> (partial_seed_scores s ! a ! i \<noteq> Fin 0 \<longrightarrow> partial_seed_steps s ! a ! i \<noteq> 0)
        \<and> i < length (unseen_seed_weights s) \<and> i < length (seed_scores s))"







section \<open>Properties\<close>

subsection \<open>Merging the scores of segments\<close>

lemma getitem2_setitem2:
  "getitem2 xss a i = Inr v \<Longrightarrow> getitem2 (setitem2 xss a i w) a i = Inr w"
  by (auto simp: getitem2_def getitem_def setitem2_def split: if_splits)

lemma merge_step:
  assumes "0 \<le> m" "1 \<le> n"
  shows "p + (x - p) * of_int n / (of_int m + of_int n)
           = (p * of_int m + of_int n * x) / (of_int m + of_int n :: real)"
proof -
  have "0 < m + n" using assms by simp
  then have "(0::real) < of_int (m + n)" by (simp only: of_int_0_less_iff)
  then have "of_int m + of_int n \<noteq> (0::real)" by simp
  then show ?thesis by (simp add: field_simps)
qed

text \<open>A sum of step counts below \<open>2\<^sup>6\<^sup>3\<close> does not wrap around.\<close>

lemma sint_word_of_int_in_range:
  "- (2 ^ 63) \<le> k \<Longrightarrow> k < 2 ^ 63 \<Longrightarrow> sint (word_of_int k :: 64 word) = k"
  by (simp add: int_word_sint)

lemma sint_add_steps:
  assumes "0 \<le> sint (m :: 64 word)" and "1 \<le> n" and "sint m + n < 2 ^ 63"
  shows "sint (m + word_of_int n) = sint m + n"
proof -
  have "m + word_of_int n = word_of_int (sint m + n)" by simp
  then show ?thesis using assms sint_word_of_int_in_range [of "sint m + n"] by simp
qed

lemma sum_steps_nonneg:
  "\<forall>(n, x) \<in> set segs. (1::int) \<le> n \<Longrightarrow> 0 \<le> (\<Sum>(n, x)\<leftarrow>segs. n)"
  by (induction segs) auto

lemma partial_update_finite:
  assumes "getitem2 (partial_seed_scores s) a i = Inr (Fin p)"
    and "getitem2 (partial_seed_steps s) a i = Inr m"
    and "0 \<le> sint m" and "1 \<le> n" and "sint m + n < 2 ^ 63"
  shows "fst (partial_update_seed_score s a i (Fin x) n done)
           = Inr (Fin (weighted_mean p (sint m) [(n, x)]))"
    and "getitem2 (partial_seed_scores (snd (partial_update_seed_score s a i (Fin x) n done))) a i
           = Inr (if done then Fin 0 else Fin (weighted_mean p (sint m) [(n, x)]))"
    and "getitem2 (partial_seed_steps (snd (partial_update_seed_score s a i (Fin x) n done))) a i
           = Inr (if done then 0 else m + word_of_int n)"
proof -
  have "real_of_int (sint (m + word_of_int n)) = real_of_int (sint m + n)"
    using sint_add_steps [OF assms(3,4,5)] by (simp only:)
  then have sr: "(signed (m + word_of_int n) :: real) = signed m + of_int n" by simp
  have "0 < sint m + n" using assms(3,4) by simp
  then have "(0::real) < of_int (sint m + n)" by (simp only: of_int_0_less_iff)
  then have nz: "(signed m :: real) + of_int n \<noteq> 0" by simp
  have ms: "p + (x - p) * of_int n / (signed m + of_int n)
           = (p * signed m + of_int n * x) / (signed m + of_int n :: real)"
    using merge_step [OF assms(3,4), of p x] by simp
  have merged: "np_add (Fin p)
          (np_div (np_mul (np_sub (Fin x) (Fin p)) (Fin (of_int n)))
             (Fin (of_int (sint (m + word_of_int n)))))
        = Fin (weighted_mean p (sint m) [(n, x)])"
    using nz ms by (simp add: np_sub_def sr weighted_mean_def)
  show "fst (partial_update_seed_score s a i (Fin x) n done)
           = Inr (Fin (weighted_mean p (sint m) [(n, x)]))"
    using assms(1,2) merged by (simp add: partial_update_seed_score_def Let_def)
  show "getitem2 (partial_seed_scores (snd (partial_update_seed_score s a i (Fin x) n done))) a i
           = Inr (if done then Fin 0 else Fin (weighted_mean p (sint m) [(n, x)]))"
    using assms(1,2) merged
    by (simp add: partial_update_seed_score_def Let_def getitem2_setitem2)
  show "getitem2 (partial_seed_steps (snd (partial_update_seed_score s a i (Fin x) n done))) a i
           = Inr (if done then 0 else m + word_of_int n)"
    using assms(1,2) by (simp add: partial_update_seed_score_def Let_def getitem2_setitem2)
qed

lemma weighted_mean_Cons:
  assumes "0 \<le> m" "1 \<le> n"
  shows "weighted_mean (weighted_mean p m [(n, x)]) (m + n) segs = weighted_mean p m ((n, x) # segs)"
proof -
  have "0 < m + n" using assms by simp
  then have "(0::real) < of_int (m + n)" by (simp only: of_int_0_less_iff)
  then have nz: "of_int m + of_int n \<noteq> (0::real)" by simp
  have "(p * of_int m + of_int n * x) / (of_int m + of_int n) * (of_int m + of_int n)
          = p * of_int m + of_int n * x"
    using nz by simp
  then show ?thesis by (simp add: weighted_mean_def add.assoc)
qed

lemma merge_segments_gen:
  assumes "getitem2 (partial_seed_scores s) a i = Inr (Fin p)"
    and "getitem2 (partial_seed_steps s) a i = Inr m"
    and "0 \<le> sint m" and "segs \<noteq> []" and "\<forall>(n, x) \<in> set segs. 1 \<le> n"
    and "sint m + (\<Sum>(n, x)\<leftarrow>segs. n) < 2 ^ 63"
  shows "fst (merge_segments s a i segs done l) = Inr (Fin (weighted_mean p (sint m) segs))
       \<and> getitem2 (partial_seed_scores (snd (merge_segments s a i segs done l))) a i
           = Inr (if done then Fin 0 else Fin (weighted_mean p (sint m) segs))
       \<and> getitem2 (partial_seed_steps (snd (merge_segments s a i segs done l))) a i
           = Inr (if done then 0 else m + word_of_int (\<Sum>(n, x)\<leftarrow>segs. n))"
  using assms
proof (induction segs arbitrary: s p m l)
  case Nil
  then show ?case by simp
next
  case (Cons seg segs)
  obtain n x where seg: "seg = (n, x)" by (cases seg)
  have n: "1 \<le> n" using Cons.prems(5) seg by simp
  have rest: "\<forall>(n, x) \<in> set segs. 1 \<le> n" using Cons.prems(5) by simp
  have total: "sint m + n + (\<Sum>(n, x)\<leftarrow>segs. n) < 2 ^ 63"
    using Cons.prems(6) seg by (simp add: add.assoc)
  have bound: "sint m + n < 2 ^ 63" using total sum_steps_nonneg [OF rest] by simp
  define dn where "dn = (done \<and> segs = [])"
  define res where "res = partial_update_seed_score s a i (Fin x) n dn"
  define q where "q = weighted_mean p (sint m) [(n, x)]"
  have r1: "fst res = Inr (Fin q)"
    and r2: "getitem2 (partial_seed_scores (snd res)) a i = Inr (if dn then Fin 0 else Fin q)"
    and r3: "getitem2 (partial_seed_steps (snd res)) a i = Inr (if dn then 0 else m + word_of_int n)"
    unfolding res_def q_def
    using partial_update_finite [where x = x and ?done = dn,
        OF Cons.prems(1) Cons.prems(2) Cons.prems(3) n bound]
    by simp_all
  have unfold: "merge_segments s a i (seg # segs) done l = merge_segments (snd res) a i segs done (Fin q)"
    using r1 unfolding seg res_def dn_def
    by (cases "partial_update_seed_score s a i (Fin x) n (done \<and> segs = [])") simp
  show ?case
  proof (cases "segs = []")
    case True
    then show ?thesis using unfold r1 r2 r3 seg by (simp add: q_def dn_def)
  next
    case False
    then have ndn: "\<not> dn" by (simp add: dn_def)
    have sm: "sint (m + word_of_int n) = sint m + n"
      by (rule sint_add_steps [OF Cons.prems(3) n bound])
    have pos: "0 \<le> sint (m + word_of_int n)" using sm Cons.prems(3) n by simp
    have total': "sint (m + word_of_int n) + (\<Sum>(n, x)\<leftarrow>segs. n) < 2 ^ 63"
      using sm total by simp
    have acc1: "getitem2 (partial_seed_scores (snd res)) a i = Inr (Fin q)" using r2 ndn by simp
    have acc2: "getitem2 (partial_seed_steps (snd res)) a i = Inr (m + word_of_int n)"
      using r3 ndn by simp
    have wm: "weighted_mean q (sint (m + word_of_int n)) segs = weighted_mean p (sint m) (seg # segs)"
      unfolding q_def seg sm by (rule weighted_mean_Cons [OF Cons.prems(3) n])
    show ?thesis
      using Cons.IH [where l = "Fin q", OF acc1 acc2 pos False rest total'] unfold wm seg
      by (simp add: add.assoc)
  qed
qed

text \<open>
  Claim C1, amended: from an empty accumulator \<open>(0, 0)\<close> of any actor and seed, a run of
  one or more segment updates with step counts \<open>n\<^sub>i \<ge> 1\<close> whose total is below \<open>2\<^sup>6\<^sup>3\<close> and
  with scores \<open>x\<^sub>i\<close> returns, at its last update, the weighted mean \<open>(\<Sum> n\<^sub>i x\<^sub>i) / (\<Sum> n\<^sub>i)\<close>
  of all the segments, in exact arithmetic, whether the last segment is a finished one or
  not; if it is not, the accumulator holds that mean.
\<close>

theorem merge_correctness:
  assumes "getitem2 (partial_seed_scores s) actor_index seed_idx = Inr (Fin 0)"
    and "getitem2 (partial_seed_steps s) actor_index seed_idx = Inr 0"
    and "segs \<noteq> []" and "\<forall>(n, x) \<in> set segs. 1 \<le> n"
    and "(\<Sum>(n, x)\<leftarrow>segs. n) < 2 ^ 63"
  shows "fst (merge_segments s actor_index seed_idx segs done (Fin 0))
           = Inr (Fin ((\<Sum>(n, x)\<leftarrow>segs. of_int n * x) / (\<Sum>(n, x)\<leftarrow>segs. of_int n)))
       \<and> (\<not> done \<longrightarrow>
            getitem2 (partial_seed_scores (snd (merge_segments s actor_index seed_idx segs done (Fin 0))))
              actor_index seed_idx
            = Inr (Fin ((\<Sum>(n, x)\<leftarrow>segs. of_int n * x) / (\<Sum>(n, x)\<leftarrow>segs. of_int n))))"
proof -
  have z: "0 \<le> sint (0 :: 64 word)" by simp
  have t: "sint (0 :: 64 word) + (\<Sum>(n, x)\<leftarrow>segs. n) < 2 ^ 63" using assms(5) by simp
  show ?thesis
    using merge_segments_gen [where ?done = "done" and l = "Fin 0",
        OF assms(1) assms(2) z assms(3) assms(4) t]
    by (auto simp add: weighted_mean_def)
qed

theorem merge_correctness_witness:
  "fst (merge_segments
          (init_sampler [10, 11, 12] 4 2 ''gae'' ''fixed'' ''power'' 1 (1/20) (1/5) (1/2) 1 0 ''power'' 1)
          1 2 [(2, 1), (3, 6)] False (Fin 0)) = Inr (Fin 4)"
  using merge_correctness [of
      "(init_sampler [10, 11, 12] 4 2 ''gae'' ''fixed'' ''power'' 1 (1/20) (1/5) (1/2) 1 0 ''power'' 1)"
      1 2 "[(2, 1), (3, 6)]" False]
  by (simp add: init_sampler_def getitem2_def getitem_def)

text \<open>
  The claim as it stands, for all step counts, fails: the counter of steps is an
  \<^verbatim>\<open>np.int64\<close>. Two segments of \<open>2\<^sup>6\<^sup>2\<close> steps with the scores 1 and 3 have the weighted mean 2,
  but their total \<open>2\<^sup>6\<^sup>3\<close> wraps around to \<open>-2\<^sup>6\<^sup>3\<close> and the second update returns 0.
\<close>

theorem merge_correctness_counterexample:
  "fst (merge_segments
          (init_sampler [10, 11, 12] 4 2 ''gae'' ''fixed'' ''power'' 1 (1/20) (1/5) (1/2) 1 0 ''power'' 1)
          1 2 [(4611686018427387904, 1), (4611686018427387904, 3)] False (Fin 0)) = Inr (Fin 0)
   \<and> getitem2 (partial_seed_steps (snd (merge_segments
          (init_sampler [10, 11, 12] 4 2 ''gae'' ''fixed'' ''power'' 1 (1/20) (1/5) (1/2) 1 0 ''power'' 1)
          1 2 [(4611686018427387904, 1), (4611686018427387904, 3)] False (Fin 0)))) 1 2
       = Inr 9223372036854775808
   \<and> sint (9223372036854775808 :: 64 word) = - 9223372036854775808
   \<and> ((\<Sum>(n, x)\<leftarrow>[(4611686018427387904, 1), (4611686018427387904, 3)]. of_int n * x)
        / (\<Sum>(n, x)\<leftarrow>[(4611686018427387904, 1), (4611686018427387904, 3)]. of_int n) :: real) = 2"
  by (simp add: init_sampler_def partial_update_seed_score_def getitem2_def getitem_def
      setitem2_def np_sub_def Let_def)

subsection \<open>The one-step TD error\<close>

lemma td_errors_nth:
  fixes r v :: "real list"
  assumes "length r = T" "T \<le> length v" "2 \<le> T"
  shows "map abs (map abs (map2 (-) (map2 (+) (butlast r) (take (T - Suc 0) v))
            (drop (Suc 0) (take T v))))
         = map (\<lambda>t. \<bar>r ! t + v ! t - v ! Suc t\<bar>) [0..<T - Suc 0]"
proof (rule nth_equalityI)
  show "length (map abs (map abs (map2 (-) (map2 (+) (butlast r) (take (T - Suc 0) v))
            (drop (Suc 0) (take T v)))))
        = length (map (\<lambda>t. \<bar>r ! t + v ! t - v ! Suc t\<bar>) [0..<T - Suc 0])"
    using assms by simp
next
  fix i
  assume "i < length (map abs (map abs (map2 (-) (map2 (+) (butlast r) (take (T - Suc 0) v))
            (drop (Suc 0) (take T v)))))"
  then have i: "i < T - Suc 0" using assms by simp
  then show "map abs (map abs (map2 (-) (map2 (+) (butlast r) (take (T - Suc 0) v))
            (drop (Suc 0) (take T v)))) ! i
        = map (\<lambda>t. \<bar>r ! t + v ! t - v ! Suc t\<bar>) [0..<T - Suc 0] ! i"
    using assms by (simp add: nth_butlast)
qed

text \<open>
  Claim C9: for a segment of \<open>T \<ge> 2\<close> steps with rewards \<open>r[0..T-1]\<close> and value estimates
  \<open>v[0..T-1]\<close> (or more of them), \<^verbatim>\<open>_one_step_td_error\<close> returns the mean over \<open>t < T - 1\<close> of
  \<open>|r[t] + v[t] - v[t+1]|\<close>.
\<close>

theorem one_step_td_error_mean:
  assumes "kw_rewards kwargs = Some r" and "kw_value_preds kwargs = Some v"
    and "length r = T" and "T \<le> length v" and "2 \<le> T"
  shows "one_step_td_error s kwargs
           = Inr (Fin ((\<Sum>t<T - 1. \<bar>r ! t + v ! t - v ! Suc t\<bar>) / real (T - 1)))"
proof -
  have len: "T \<le> length v" using assms(4) .
  have sum: "sum_list (map (\<lambda>t. \<bar>r ! t + v ! t - v ! Suc t\<bar>) [0..<T - Suc 0])
               = (\<Sum>t<T - Suc 0. \<bar>r ! t + v ! t - v ! Suc t\<bar>)"
    by (simp add: interv_sum_list_conv_sum_set_nat atLeast0LessThan)
  have step: "one_step_td_error s kwargs
                = Inr (tensor_mean (map abs (map abs (map2 (-)
                         (map2 (+) (butlast r) (take (T - Suc 0) v)) (drop (Suc 0) (take T v))))))"
    using assms by (simp add: one_step_td_error_def kwarg_def broadcast2_def Let_def)
  have ne: "map (\<lambda>t. \<bar>r ! t + v ! t - v ! Suc t\<bar>) [0..<T - Suc 0] \<noteq> []"
    using assms(5) by simp
  have "tensor_mean (map (\<lambda>t. \<bar>r ! t + v ! t - v ! Suc t\<bar>) [0..<T - Suc 0])
          = Fin ((\<Sum>t<T - Suc 0. \<bar>r ! t + v ! t - v ! Suc t\<bar>) / real (T - Suc 0))"
    unfolding tensor_mean_def using ne sum by simp
  then show ?thesis
    unfolding step td_errors_nth [OF assms(3) len assms(5)] by simp
qed

theorem one_step_td_error_mean_witness:
  "one_step_td_error
     (init_sampler [10, 11] 4 1 ''one_step_td_error'' ''fixed'' ''power'' 1 (1/20) (1/5) (1/2) 1 0
        ''power'' 1)
     \<lparr> kw_episode_logits = [], kw_returns = None, kw_rewards = Some [1, 0, 2],
       kw_value_preds = Some [3, 5, 4] \<rparr> = Inr (Fin 1)"
  using one_step_td_error_mean [of
      "\<lparr> kw_episode_logits = [], kw_returns = None, kw_rewards = Some [1, 0, 2],
         kw_value_preds = Some [3, 5, 4] \<rparr>" "[1, 0, 2]" "[3, 5, 4]" 3
      "init_sampler [10, 11] 4 1 ''one_step_td_error'' ''fixed'' ''power'' 1 (1/20) (1/5) (1/2) 1 0
         ''power'' 1"]
  by (simp add: lessThan_Suc numeral_2_eq_2)

text \<open>A segment of one step has no pair of consecutive steps: its score is NaN.\<close>

lemma one_step_td_error_single_step:
  "one_step_td_error s
     \<lparr> kw_episode_logits = [], kw_returns = None, kw_rewards = Some [1],
       kw_value_preds = Some [3] \<rparr> = Inr NaN"
  by (simp add: one_step_td_error_def kwarg_def broadcast2_def tensor_mean_def)

subsection \<open>The strategy \<^verbatim>\<open>random\<close>\<close>

text \<open>
  Claim C10: with the strategy \<^verbatim>\<open>random\<close>, \<^verbatim>\<open>update_with_rollouts\<close> returns at once, for every
  rollout: no field of the sampler changes (so neither the scores, nor the partial scores
  and steps, nor the unseen flags, nor the staleness), and nothing is raised.
\<close>

theorem random_strategy_noop:
  assumes "strategy s = ''random''"
  shows "update_with_rollouts s r = (Inr (), s)"
  using assms by (simp add: update_with_rollouts_def)


theorem random_strategy_noop_witness:
  "update_with_rollouts
     (init_sampler [10, 11, 12] 4 2 ''random'' ''fixed'' ''power'' 1 (1/20) (1/5) (1/2) 1 0 ''power'' 1)
     \<lparr> level_seeds = [[10, 11]], action_log_dist = [[[0, 0], [0, 0]]], masks = [[0, 1]],
       returns = [[1, 2]], rewards = [[1, 2]], value_preds = [[0, 0]] \<rparr>
   = (Inr (),
      init_sampler [10, 11, 12] 4 2 ''random'' ''fixed'' ''power'' 1 (1/20) (1/5) (1/2) 1 0 ''power'' 1)"
  using random_strategy_noop [of
      "init_sampler [10, 11, 12] 4 2 ''random'' ''fixed'' ''power'' 1 (1/20) (1/5) (1/2) 1 0 ''power'' 1"
      "\<lparr> level_seeds = [[10, 11]], action_log_dist = [[[0, 0], [0, 0]]], masks = [[0, 1]],
         returns = [[1, 2]], rewards = [[1, 2]], value_preds = [[0, 0]] \<rparr>"]
  by (simp add: init_sampler_def)

subsection \<open>The replay schedule\<close>



lemma proportion_seen_real:
  assumes "seeds s \<noteq> []"
  shows "proportion_seen s =
           Fin ((real (length (seeds s))
                   - real (length (filter (\<lambda>u. np_gt u (Fin 0)) (unseen_seed_weights s))))
                / real (length (seeds s)))"
  using assms by (simp add: proportion_seen_def Let_def)


text \<open>
  Claim C5, amended: when no seed is unseen any more (every unseen flag is 0), the pool of
  seeds is not empty and \<open>rho \<le> 1\<close>, a call of \<^verbatim>\<open>sample\<close> with a strategy driven by the scores
  never calls \<^verbatim>\<open>_sample_unseen_level\<close>, whatever the replay schedule and whatever the uniform
  draw in \<open>[0, 1)\<close>.
\<close>

theorem unseen_exhaustion:
  assumes "effective_strategy s strategy_arg \<noteq> ''random''"
    and "effective_strategy s strategy_arg \<noteq> ''sequential''"
    and "list_all (\<lambda>u. u = Fin 0) (unseen_seed_weights s)"
    and "seeds s \<noteq> []" and "rho s \<le> 1" and "rand d < 1"
  shows "SampleUnseenLevel \<notin> set (fst (sample s strategy_arg d))"
proof -
  have "filter (\<lambda>u. np_gt u (Fin 0)) (unseen_seed_weights s) = []"
    using assms(3) by (auto simp: filter_empty_conv list_all_iff np_gt_def)
  then have "proportion_seen s = Fin 1"
    using assms(4) by (simp add: proportion_seen_def)
  then show ?thesis
    using assms by (simp add: sample_def Let_def np_ge_def np_gt_def np_eq_def)
qed

theorem unseen_exhaustion_witness:
  "SampleUnseenLevel \<notin> set (fst (sample
          ((init_sampler [10, 11] 4 1 ''gae'' ''proportionate'' ''power'' 1 (1/20) (1/5) (1/2) 1
              0 ''power'' 1)
           \<lparr> unseen_seed_weights := [Fin 0, Fin 0] \<rparr>)
          None
          \<lparr> rand = 9/10, choice_uniform = 1/2, choice_int = 0, max_choice_scores = 0,
            max_choice_staleness = 0 \<rparr>))"
  using unseen_exhaustion [of
      "(init_sampler [10, 11] 4 1 ''gae'' ''proportionate'' ''power'' 1 (1/20) (1/5) (1/2) 1
              0 ''power'' 1)
           \<lparr> unseen_seed_weights := [Fin 0, Fin 0] \<rparr>"
      None
      "\<lparr> rand = 9/10, choice_uniform = 1/2, choice_int = 0, max_choice_scores = 0,
            max_choice_staleness = 0 \<rparr>"]
  by (simp add: init_sampler_def effective_strategy_def)

text \<open>
  The claim as it stands, without a bound on \<open>rho\<close>, fails: with \<open>rho = 2\<close> the test
  \<open>proportion_seen \<ge> rho\<close> never holds, and after the only seed has finished an episode
  \<^verbatim>\<open>sample\<close> still calls \<^verbatim>\<open>_sample_unseen_level\<close>.
\<close>

theorem unseen_exhaustion_counterexample:
  "unseen_seed_weights
     (snd (update_seed_score
        (init_sampler [7] 4 1 ''gae'' ''fixed'' ''power'' 1 (1/20) 2 (1/2) 1 0 ''power'' 1)
        0 0 (Fin 1) 5)) = [Fin 0]
   \<and> fst (sample
       (snd (update_seed_score
          (init_sampler [7] 4 1 ''gae'' ''fixed'' ''power'' 1 (1/20) 2 (1/2) 1 0 ''power'' 1)
          0 0 (Fin 1) 5))
       None
       \<lparr> rand = 9/10, choice_uniform = 1/2, choice_int = 0, max_choice_scores = 0,
         max_choice_staleness = 0 \<rparr>) = [SampleUnseenLevel]"
  by (simp add: init_sampler_def update_seed_score_def partial_update_seed_score_def getitem2_def
      getitem_def setitem2_def np_sub_def Let_def sample_def effective_strategy_def
      proportion_seen_def np_ge_def np_gt_def np_eq_def)

subsection \<open>Sampling weights\<close>

lemma fin_list: "list_all is_fin ws \<Longrightarrow> ws = map Fin (map the_fin ws)"
proof (induction ws)
  case Nil
  then show ?case by simp
next
  case (Cons w ws)
  then show ?case by (cases w) simp_all
qed

lemma foldl_np_add_Fin: "foldl np_add (Fin a) (map Fin rs) = Fin (a + sum_list rs)"
  by (induction rs arbitrary: a) (simp_all add: add.assoc)

lemma np_sum_Fin: "np_sum (map Fin rs) = Fin (sum_list rs)"
  by (simp add: np_sum_def foldl_np_add_Fin)

lemma normalized_sum:
  assumes "0 < sum_list rs"
  shows "map (\<lambda>w. np_div w (Fin (sum_list rs))) (map Fin rs) = map Fin (map (\<lambda>r. r / sum_list rs) rs)"
    and "sum_list (map (\<lambda>r. r / sum_list rs) rs) = 1"
proof -
  show "map (\<lambda>w. np_div w (Fin (sum_list rs))) (map Fin rs) = map Fin (map (\<lambda>r. r / sum_list rs) rs)"
    using assms by simp
  have "sum_list (map (\<lambda>r. r / c) rs) = sum_list rs / c" for c
    by (induction rs) (simp_all add: add_divide_distrib)
  then have "sum_list (map (\<lambda>r. r / sum_list rs) rs) = sum_list rs / sum_list rs" .
  then show "sum_list (map (\<lambda>r. r / sum_list rs) rs) = 1" using assms by simp
qed

lemma length_masked_weights:
  assumes "masked_weights s weights = Inr ws" and "length weights = length (unseen_seed_weights s)"
  shows "length ws = length weights"
  using assms by (auto simp: masked_weights_def np_elementwise_def broadcast2_def)

lemma masked_weights_cong:
  "unseen_seed_weights s' = unseen_seed_weights s \<Longrightarrow> masked_weights s' w = masked_weights s w"
  by (simp add: masked_weights_def)

lemma positive_mass_normalize:
  assumes "positive_mass s (Inr weights)" and "length weights = length (unseen_seed_weights s)"
  shows "\<exists>ps. mask_and_normalize s weights = Inr (map Fin ps) \<and> sum_list ps = 1
            \<and> length ps = length weights"
proof -
  from assms(1) obtain ws where ws: "masked_weights s weights = Inr ws"
    and fin: "list_all is_fin ws" and pos: "np_gt (np_sum ws) (Fin 0)"
    by (auto simp: positive_mass_def split: sum.splits)
  define rs where "rs = map the_fin ws"
  have wsrs: "ws = map Fin rs" unfolding rs_def by (rule fin_list [OF fin])
  have sum: "np_sum ws = Fin (sum_list rs)" unfolding wsrs by (rule np_sum_Fin)
  have pos': "0 < sum_list rs" using pos sum by (simp add: np_gt_def)
  have len: "length rs = length weights"
    using length_masked_weights [OF ws assms(2)] wsrs by simp
  have "mask_and_normalize s weights = Inr (map (\<lambda>w. np_div w (np_sum ws)) ws)"
    using pos by (simp add: mask_and_normalize_def ws Let_def)
  also have "map (\<lambda>w. np_div w (np_sum ws)) ws
               = map (\<lambda>w. np_div w (Fin (sum_list rs))) (map Fin rs)"
    unfolding sum unfolding wsrs ..
  also have "\<dots> = map Fin (map (\<lambda>r. r / sum_list rs) rs)"
    by (rule normalized_sum(1) [OF pos'])
  finally have "mask_and_normalize s weights = Inr (map Fin (map (\<lambda>r. r / sum_list rs) rs))" .
  moreover have "length (map (\<lambda>r. r / sum_list rs) rs) = length weights" using len by simp
  ultimately show ?thesis using normalized_sum(2) [OF pos'] by blast
qed

lemma length_insert_index: "length (insert_index xs i js) = Suc (length js)"
  by (induction js) simp_all

lemma length_foldr_insert_index: "length (foldr (insert_index xs) is []) = length is"
  by (induction "is") (simp_all add: length_insert_index)

lemma length_np_argsort: "length (np_argsort xs) = length xs"
  by (simp add: np_argsort_def length_foldr_insert_index)

lemma length_score_transform_fn:
  assumes "fst (score_transform_fn s transform temp scores k) = Inr weights"
    and "length (unseen_seed_weights s) = length scores"
  shows "length weights = length scores"
  using assms
  by (auto simp: score_transform_fn_def Let_def length_np_argsort split: if_splits sum.splits)

lemma score_transform_fn_cong:
  "score_transform_fn (s\<lparr> seed_scores := x \<rparr>) transform temp scores k
     = score_transform_fn s transform temp scores k"
  by (simp add: score_transform_fn_def)

lemma sum_list_convex:
  assumes "length ps = length qs"
  shows "sum_list (map2 (\<lambda>p q. a * p + b * q) ps qs) = a * sum_list ps + b * sum_list (qs :: real list)"
  using assms by (induction ps qs rule: list_induct2) (simp_all add: algebra_simps)

lemma convex_combination:
  assumes "length ps = length qs"
  shows "np_elementwise np_add (map (\<lambda>w. np_mul (Fin a) w) (map Fin ps))
           (map (\<lambda>w. np_mul (Fin b) w) (map Fin qs))
         = Inr (map Fin (map2 (\<lambda>p q. a * p + b * q) ps qs))"
proof -
  have "map2 np_add (map (\<lambda>w. np_mul (Fin a) w) (map Fin ps)) (map (\<lambda>w. np_mul (Fin b) w) (map Fin qs))
          = map Fin (map2 (\<lambda>p q. a * p + b * q) ps qs)"
    using assms by (induction ps qs rule: list_induct2) simp_all
  then show ?thesis using assms by (simp add: np_elementwise_def broadcast2_def)
qed

lemma sample_weights_sum_one:
  assumes wf: "wf_sampler s"
    and sc: "positive_mass s (fst (score_transform_fn s (score_transform s) (temperature s)
                (seed_scores s) (max_choice_scores d)))"
    and st: "0 < staleness_coef s \<Longrightarrow>
             positive_mass s (fst (score_transform_fn s (staleness_transform s)
                (staleness_temperature s) (seed_staleness s) (max_choice_staleness d)))"
  shows "\<exists>w. fst (sample_weights s d) = Inr w \<and> np_sum w = Fin 1"
proof -
  obtain r1 scores' where t1: "score_transform_fn s (score_transform s) (temperature s)
                (seed_scores s) (max_choice_scores d) = (r1, scores')"
    by (cases "score_transform_fn s (score_transform s) (temperature s)
                (seed_scores s) (max_choice_scores d)")
  from sc t1 obtain w0 where r1: "r1 = Inr w0"
    by (cases r1) (auto simp: positive_mass_def)
  define s1 where "s1 = s\<lparr> seed_scores := scores' \<rparr>"
  have len_us: "length (unseen_seed_weights s) = length (seed_scores s)"
    and len_st: "length (unseen_seed_weights s) = length (seed_staleness s)"
    using wf by (simp_all add: wf_sampler_def)
  have len0: "length w0 = length (unseen_seed_weights s)"
    using length_score_transform_fn [of s "score_transform s" "temperature s" "seed_scores s"
        "max_choice_scores d" w0] t1 r1 len_us by simp
  have pm1: "positive_mass s1 (Inr w0)"
    using sc t1 r1 by (simp add: positive_mass_def s1_def masked_weights_def)
  have len0': "length w0 = length (unseen_seed_weights s1)" using len0 by (simp add: s1_def)
  obtain ps where ps: "mask_and_normalize s1 w0 = Inr (map Fin ps)" "sum_list ps = 1"
      "length ps = length w0"
    using positive_mass_normalize [OF pm1 len0'] by blast
  show ?thesis
  proof (cases "0 < staleness_coef s")
    case False
    then have "fst (sample_weights s d) = Inr (map Fin ps)"
      using t1 r1 ps(1) by (simp add: sample_weights_def Let_def s1_def)
    then show ?thesis using ps(2) by (simp add: np_sum_Fin)
  next
    case True
    obtain r2 staleness' where t2: "score_transform_fn s1 (staleness_transform s1)
        (staleness_temperature s1) (seed_staleness s1) (max_choice_staleness d) = (r2, staleness')"
      by (cases "score_transform_fn s1 (staleness_transform s1)
        (staleness_temperature s1) (seed_staleness s1) (max_choice_staleness d)")
    have t2': "score_transform_fn s (staleness_transform s) (staleness_temperature s)
        (seed_staleness s) (max_choice_staleness d) = (r2, staleness')"
      using t2 by (simp add: s1_def score_transform_fn_cong)
    from st [OF True] t2' obtain v0 where r2: "r2 = Inr v0"
      by (cases r2) (auto simp: positive_mass_def)
    define s2 where "s2 = s1\<lparr> seed_staleness := staleness' \<rparr>"
    have lenv: "length v0 = length (unseen_seed_weights s)"
      using length_score_transform_fn [of s "staleness_transform s" "staleness_temperature s"
          "seed_staleness s" "max_choice_staleness d" v0] t2' r2 len_st by simp
    have pm2: "positive_mass s2 (Inr v0)"
      using st [OF True] t2' r2 by (simp add: positive_mass_def s2_def s1_def masked_weights_def)
    have lenv': "length v0 = length (unseen_seed_weights s2)" using lenv by (simp add: s2_def s1_def)
    obtain qs where qs: "mask_and_normalize s2 v0 = Inr (map Fin qs)" "sum_list qs = 1"
        "length qs = length v0"
      using positive_mass_normalize [OF pm2 lenv'] by blast
    have lenpq: "length ps = length qs" using ps(3) qs(3) len0 lenv by simp
    define c where "c = staleness_coef s"
    have coef1: "staleness_coef s1 = c" and coef2: "staleness_coef s2 = c"
      by (simp_all add: c_def s1_def s2_def)
    have "fst (sample_weights s d) = Inr (map Fin (map2 (\<lambda>p q. (1 - c) * p + c * q) ps qs))"
      using t1 r1 ps(1) True t2 r2 qs(1) convex_combination [OF lenpq, of "1 - c" c]
      unfolding sample_weights_def s1_def [symmetric]
      by (simp add: Let_def s1_def [symmetric] s2_def [symmetric] coef1 coef2 c_def [symmetric])
    moreover have "sum_list (map2 (\<lambda>p q. (1 - c) * p + c * q) ps qs) = 1"
      using sum_list_convex [OF lenpq, of "1 - c" c] ps(2) qs(2) by simp
    ultimately show ?thesis using np_sum_Fin [of "map2 (\<lambda>p q. (1 - c) * p + c * q) ps qs"]
      by (intro exI conjI) (assumption, simp only:)
  qed
qed

lemma np_sum_replicate: "np_sum (replicate n (Fin a)) = Fin (real n * a)"
proof -
  have "replicate n (Fin a) = map Fin (replicate n a)" by simp
  then show ?thesis by (simp only: np_sum_Fin sum_list_replicate)
qed

lemma uniform_fallback:
  assumes "np_isclose (np_sum w) (Fin 0)" and "w \<noteq> []"
  shows "replay_probabilities w = replicate (length w) (Fin (1 / real (length w)))
       \<and> np_sum (replay_probabilities w) = Fin 1"
proof -
  have rp: "replay_probabilities w = replicate (length w) (Fin (1 / real (length w)))"
    using assms by (simp add: replay_probabilities_def map_replicate_const)
  show ?thesis unfolding rp using assms(2) by (simp add: np_sum_replicate)
qed


text \<open>
  Claim C2, amended. \<^verbatim>\<open>sample_weights\<close> itself has no fallback; what holds is: (1) when the
  weights of the score transform, masked by the unseen flags, are finite and have a
  positive sum (and, with staleness weighting enabled, those of the staleness transform
  as well), the vector \<^verbatim>\<open>sample_weights\<close> returns sums to 1, for every transform; (2) when
  the vector \<^verbatim>\<open>sample_weights\<close> returns has a sum that is numerically zero, it is
  \<^verbatim>\<open>_sample_replay_level\<close> that draws the level with the uniform distribution over all
  seeds, which sums to 1.
\<close>

theorem normalization_with_fallback:
  "(wf_sampler s
      \<and> positive_mass s (fst (score_transform_fn s (score_transform s) (temperature s)
            (seed_scores s) (max_choice_scores d)))
      \<and> (0 < staleness_coef s \<longrightarrow>
            positive_mass s (fst (score_transform_fn s (staleness_transform s)
              (staleness_temperature s) (seed_staleness s) (max_choice_staleness d))))
      \<longrightarrow> (\<exists>w. fst (sample_weights s d) = Inr w \<and> np_sum w = Fin 1))
   \<and> (sample_weights s' d' = (Inr w', s1) \<and> w' \<noteq> [] \<and> np_isclose (np_sum w') (Fin 0)
      \<longrightarrow> sample_replay_level s' d'
            = draw_level s1 (replicate (length w') (Fin (1 / real (length w')))) d'
          \<and> np_sum (replicate (length w') (Fin (1 / real (length w')))) = Fin 1)"
proof (intro conjI impI)
  assume "wf_sampler s
      \<and> positive_mass s (fst (score_transform_fn s (score_transform s) (temperature s)
            (seed_scores s) (max_choice_scores d)))
      \<and> (0 < staleness_coef s \<longrightarrow>
            positive_mass s (fst (score_transform_fn s (staleness_transform s)
              (staleness_temperature s) (seed_staleness s) (max_choice_staleness d))))"
  then show "\<exists>w. fst (sample_weights s d) = Inr w \<and> np_sum w = Fin 1"
    using sample_weights_sum_one [of s d] by blast
next
  assume a: "sample_weights s' d' = (Inr w', s1) \<and> w' \<noteq> [] \<and> np_isclose (np_sum w') (Fin 0)"
  then show "sample_replay_level s' d'
            = draw_level s1 (replicate (length w') (Fin (1 / real (length w')))) d'"
    using uniform_fallback [of w'] by (simp add: sample_replay_level_def)
  show "np_sum (replicate (length w') (Fin (1 / real (length w')))) = Fin 1"
    using a by (simp add: np_sum_replicate)
qed

theorem normalization_with_fallback_witness:
  "(\<exists>w. fst (sample_weights
            ((init_sampler [10, 11] 4 1 ''gae'' ''fixed'' ''power'' 1 (1/20) (1/5) (1/2) 1 0 ''power'' 1)
             \<lparr> unseen_seed_weights := [Fin 0, Fin 0], seed_scores := [Fin 1, Fin 3] \<rparr>)
            \<lparr> rand = 9/10, choice_uniform = 1/2, choice_int = 0, max_choice_scores = 0,
              max_choice_staleness = 0 \<rparr>) = Inr w \<and> np_sum w = Fin 1)
   \<and> sample_replay_level
         (init_sampler [10, 11] 4 1 ''gae'' ''fixed'' ''power'' 1 (1/20) (1/5) (1/2) 1 0 ''power'' 1)
         \<lparr> rand = 9/10, choice_uniform = 1/2, choice_int = 0, max_choice_scores = 0,
           max_choice_staleness = 0 \<rparr>
       = draw_level
           (init_sampler [10, 11] 4 1 ''gae'' ''fixed'' ''power'' 1 (1/20) (1/5) (1/2) 1 0 ''power'' 1)
           [Fin (1 / 2), Fin (1 / 2)]
           \<lparr> rand = 9/10, choice_uniform = 1/2, choice_int = 0, max_choice_scores = 0,
             max_choice_staleness = 0 \<rparr>"
proof -
  have h1: "wf_sampler
      ((init_sampler [10, 11] 4 1 ''gae'' ''fixed'' ''power'' 1 (1/20) (1/5) (1/2) 1 0 ''power'' 1)
        \<lparr> unseen_seed_weights := [Fin 0, Fin 0], seed_scores := [Fin 1, Fin 3] \<rparr>)"
    by (simp add: wf_sampler_def init_sampler_def)
  have h2: "positive_mass
      ((init_sampler [10, 11] 4 1 ''gae'' ''fixed'' ''power'' 1 (1/20) (1/5) (1/2) 1 0 ''power'' 1)
        \<lparr> unseen_seed_weights := [Fin 0, Fin 0], seed_scores := [Fin 1, Fin 3] \<rparr>)
      (fst (score_transform_fn
         ((init_sampler [10, 11] 4 1 ''gae'' ''fixed'' ''power'' 1 (1/20) (1/5) (1/2) 1 0 ''power'' 1)
           \<lparr> unseen_seed_weights := [Fin 0, Fin 0], seed_scores := [Fin 1, Fin 3] \<rparr>)
         ''power'' 1 [Fin 1, Fin 3] 0))"
    by (simp add: positive_mass_def init_sampler_def score_transform_fn_def masked_weights_def
        np_elementwise_def broadcast2_def np_sub_def np_sum_def np_gt_def)
  have h3: "sample_weights
      (init_sampler [10, 11] 4 1 ''gae'' ''fixed'' ''power'' 1 (1/20) (1/5) (1/2) 1 0 ''power'' 1)
      \<lparr> rand = 9/10, choice_uniform = 1/2, choice_int = 0, max_choice_scores = 0,
        max_choice_staleness = 0 \<rparr>
      = (Inr [Fin 0, Fin 0],
         init_sampler [10, 11] 4 1 ''gae'' ''fixed'' ''power'' 1 (1/20) (1/5) (1/2) 1 0 ''power'' 1)"
    by (simp add: init_sampler_def Let_def sample_weights_def score_transform_fn_def
        np_gt_def mask_and_normalize_def masked_weights_def np_elementwise_def broadcast2_def
        np_sum_def np_sub_def)
  show ?thesis
    using h1 h2 h3 normalization_with_fallback [of
      "(init_sampler [10, 11] 4 1 ''gae'' ''fixed'' ''power'' 1 (1/20) (1/5) (1/2) 1 0 ''power'' 1)
        \<lparr> unseen_seed_weights := [Fin 0, Fin 0], seed_scores := [Fin 1, Fin 3] \<rparr>"
      "\<lparr> rand = 9/10, choice_uniform = 1/2, choice_int = 0, max_choice_scores = 0,
        max_choice_staleness = 0 \<rparr>"
      "init_sampler [10, 11] 4 1 ''gae'' ''fixed'' ''power'' 1 (1/20) (1/5) (1/2) 1 0 ''power'' 1"
      "\<lparr> rand = 9/10, choice_uniform = 1/2, choice_int = 0, max_choice_scores = 0,
        max_choice_staleness = 0 \<rparr>"
      "[Fin 0, Fin 0]"
      "init_sampler [10, 11] 4 1 ''gae'' ''fixed'' ''power'' 1 (1/20) (1/5) (1/2) 1 0 ''power'' 1"]
    by (simp add: init_sampler_def np_sum_def)
qed


text \<open>
  The claim as it stands fails: while every seed is unseen, \<^verbatim>\<open>sample_weights\<close> returns the
  all-zero vector, not the uniform distribution.
\<close>

theorem normalization_counterexample:
  "fst (sample_weights
          (init_sampler [10, 11] 4 1 ''gae'' ''fixed'' ''power'' 1 (1/20) (1/5) (1/2) 1 0 ''power'' 1)
          \<lparr> rand = 9/10, choice_uniform = 1/2, choice_int = 0, max_choice_scores = 0,
            max_choice_staleness = 0 \<rparr>) = Inr [Fin 0, Fin 0]
   \<and> np_sum [Fin 0, Fin 0] \<noteq> Fin 1"
  by (simp add: init_sampler_def Let_def sample_weights_def score_transform_fn_def
      np_gt_def mask_and_normalize_def
      masked_weights_def np_elementwise_def broadcast2_def np_sum_def np_sub_def)

text \<open>
  Claim C3 is what the code misses: with the score transform \<^verbatim>\<open>max\<close>, \<^verbatim>\<open>sample_weights\<close>
  changes \<^verbatim>\<open>seed_scores\<close>. After seed 11 finished an episode with score 3 while seed 10 is
  still unseen, the scores are \<open>[0, 3]\<close>; the call of \<^verbatim>\<open>sample_weights\<close> leaves \<open>[-inf, 3]\<close>.
\<close>

theorem max_transform_overwrites_seed_scores:
  "seed_scores
     (snd (update_seed_score
        (init_sampler [10, 11] 4 1 ''gae'' ''fixed'' ''max'' 1 (1/20) (1/5) (1/2) 1 0 ''power'' 1)
        0 1 (Fin 3) 4)) = [Fin 0, Fin 3]
   \<and> sample_weights
       (snd (update_seed_score
          (init_sampler [10, 11] 4 1 ''gae'' ''fixed'' ''max'' 1 (1/20) (1/5) (1/2) 1 0 ''power'' 1)
          0 1 (Fin 3) 4))
       \<lparr> rand = 9/10, choice_uniform = 1/2, choice_int = 0, max_choice_scores = 0,
         max_choice_staleness = 0 \<rparr>
     = (Inr [Fin 0, Fin 1],
        (snd (update_seed_score
          (init_sampler [10, 11] 4 1 ''gae'' ''fixed'' ''max'' 1 (1/20) (1/5) (1/2) 1 0 ''power'' 1)
          0 1 (Fin 3) 4)) \<lparr> seed_scores := [NInf, Fin 3] \<rparr>)"
  by (simp add: init_sampler_def update_seed_score_def partial_update_seed_score_def getitem2_def
      getitem_def setitem2_def np_sub_def Let_def sample_weights_def score_transform_fn_def
      np_gt_def np_max_def np_maximum_def random_choice_def mask_and_normalize_def
      masked_weights_def np_elementwise_def broadcast2_def np_sum_def np_eq_def signed_inf_def)

subsection \<open>Staleness\<close>

lemma score_transform_fn_frame:
  "transform \<noteq> ''max'' \<Longrightarrow> snd (score_transform_fn s transform temp scores k) = scores"
  by (simp add: score_transform_fn_def Let_def)

lemma sample_weights_state:
  "\<exists>A B. snd (sample_weights s d) = s\<lparr> seed_scores := A, seed_staleness := B \<rparr>
      \<and> (score_transform s \<noteq> ''max'' \<longrightarrow> A = seed_scores s)
      \<and> (staleness_transform s \<noteq> ''max'' \<longrightarrow> B = seed_staleness s)"
proof -
  obtain r1 A where t1: "score_transform_fn s (score_transform s) (temperature s)
                (seed_scores s) (max_choice_scores d) = (r1, A)"
    by (cases "score_transform_fn s (score_transform s) (temperature s)
                (seed_scores s) (max_choice_scores d)")
  define s1 where "s1 = s\<lparr> seed_scores := A \<rparr>"
  obtain r2 B where t2: "score_transform_fn s1 (staleness_transform s1)
        (staleness_temperature s1) (seed_staleness s1) (max_choice_staleness d) = (r2, B)"
    by (cases "score_transform_fn s1 (staleness_transform s1)
        (staleness_temperature s1) (seed_staleness s1) (max_choice_staleness d)")
  have A: "score_transform s \<noteq> ''max'' \<Longrightarrow> A = seed_scores s"
    using score_transform_fn_frame [of "score_transform s" s "temperature s" "seed_scores s"
        "max_choice_scores d"] t1 by simp
  have B: "staleness_transform s \<noteq> ''max'' \<Longrightarrow> B = seed_staleness s"
    using score_transform_fn_frame [of "staleness_transform s1" s1 "staleness_temperature s1"
        "seed_staleness s1" "max_choice_staleness d"] t2 by (simp add: s1_def)
  have s1s: "s1 = s\<lparr> seed_scores := A, seed_staleness := seed_staleness s \<rparr>"
    by (simp add: s1_def)
  have s2s: "s1\<lparr> seed_staleness := B \<rparr> = s\<lparr> seed_scores := A, seed_staleness := B \<rparr>"
    by (simp add: s1_def)
  have "snd (sample_weights s d) = s1 \<or> snd (sample_weights s d) = s1\<lparr> seed_staleness := B \<rparr>"
    using t1 t2 unfolding sample_weights_def s1_def [symmetric]
    by (simp add: Let_def s1_def [symmetric] split: sum.splits)
  then show ?thesis
  proof
    assume "snd (sample_weights s d) = s1"
    then have "snd (sample_weights s d) = s\<lparr> seed_scores := A, seed_staleness := seed_staleness s \<rparr>"
      using s1s by simp
    then show ?thesis using A
      by (intro exI [of _ A] exI [of _ "seed_staleness s"] conjI impI) simp_all
  next
    assume "snd (sample_weights s d) = s1\<lparr> seed_staleness := B \<rparr>"
    then have "snd (sample_weights s d) = s\<lparr> seed_scores := A, seed_staleness := B \<rparr>"
      using s2s by simp
    then show ?thesis using A B
      by (intro exI [of _ A] exI [of _ B] conjI impI) simp_all
  qed
qed

lemma update_staleness_result:
  assumes "update_staleness s selected_idx = (Inr u, s')" and "0 < staleness_coef s"
  shows "selected_idx < length (seed_staleness s)
       \<and> s' = s\<lparr> seed_staleness :=
                  (map (\<lambda>x. np_add x (Fin 1)) (seed_staleness s))[selected_idx := Fin 0] \<rparr>"
  using assms by (auto simp: update_staleness_def Let_def split: if_splits)

lemma draw_level_result:
  assumes "draw_level s p d = (Inr seed, s')" and "0 < staleness_coef s"
  shows "\<exists>selected_idx. selected_idx < length (seeds s) \<and> seeds s ! selected_idx = seed
           \<and> selected_idx < length (seed_staleness s)
           \<and> s' = s\<lparr> seed_staleness :=
                  (map (\<lambda>x. np_add x (Fin 1)) (seed_staleness s))[selected_idx := Fin 0] \<rparr>"
proof -
  from assms(1) obtain idx where c: "random_choice_p (length (seeds s)) p (choice_uniform d) = Inr idx"
    by (auto simp: draw_level_def split: sum.splits)
  from assms(1) c have g: "getitem (seeds s) idx = Inr seed"
    by (auto simp: draw_level_def split: sum.splits prod.splits)
  from assms(1) c g have u: "update_staleness s idx = (Inr (), s')"
    by (auto simp: draw_level_def split: sum.splits prod.splits)
  from g have "idx < length (seeds s)" "seeds s ! idx = seed"
    by (auto simp: getitem_def split: if_splits)
  then show ?thesis using update_staleness_result [OF u assms(2)] by blast
qed

text \<open>
  Claim C8, amended: with staleness weighting enabled (\<open>staleness_coef > 0\<close>), a strategy
  driven by the scores (neither \<^verbatim>\<open>random\<close> nor \<^verbatim>\<open>sequential\<close>) and a staleness transform
  other than \<^verbatim>\<open>max\<close>, after a successful \<^verbatim>\<open>sample\<close>, under either replay schedule, the
  staleness of the selected seed is 0 and the staleness of every other seed is its value
  before the call plus 1.
\<close>

theorem staleness_reset:
  assumes "effective_strategy s strategy_arg \<noteq> ''random''"
    and "effective_strategy s strategy_arg \<noteq> ''sequential''"
    and "0 < staleness_coef s"
    and "staleness_transform s \<noteq> ''max''"
    and "snd (sample s strategy_arg d) = (Inr seed, s')"
  shows "\<exists>selected_idx. selected_idx < length (seeds s) \<and> seeds s ! selected_idx = seed
           \<and> selected_idx < length (seed_staleness s')
           \<and> length (seed_staleness s') = length (seed_staleness s)
           \<and> seed_staleness s' ! selected_idx = Fin 0
           \<and> (\<forall>j < length (seed_staleness s). j \<noteq> selected_idx \<longrightarrow>
                  seed_staleness s' ! j = np_add (seed_staleness s ! j) (Fin 1))"
proof -
  have "(Inr seed, s') = sample_replay_level s d \<or> (Inr seed, s') = sample_unseen_level s d"
    using assms(1,2,5) by (auto simp: sample_def Let_def split: if_splits)
  then obtain s1 p where dl: "draw_level s1 p d = (Inr seed, s')"
    and st: "seed_staleness s1 = seed_staleness s" and sd: "seeds s1 = seeds s"
    and co: "staleness_coef s1 = staleness_coef s"
  proof
    assume r: "(Inr seed, s') = sample_replay_level s d"
    obtain A B where "snd (sample_weights s d) = s\<lparr> seed_scores := A, seed_staleness := B \<rparr>"
        and "B = seed_staleness s"
      using sample_weights_state [of s d] assms(4) by blast
    then have fr: "seed_staleness (snd (sample_weights s d)) = seed_staleness s"
        "seeds (snd (sample_weights s d)) = seeds s"
        "staleness_coef (snd (sample_weights s d)) = staleness_coef s"
      by simp_all
    from r obtain w where "draw_level (snd (sample_weights s d)) (replay_probabilities w) d = (Inr seed, s')"
      by (cases "sample_weights s d") (auto simp: sample_replay_level_def split: sum.splits)
    then show ?thesis using fr that by blast
  next
    assume "(Inr seed, s') = sample_unseen_level s d"
    then show ?thesis using that [of s] by (simp add: sample_unseen_level_def)
  qed
  from draw_level_result [OF dl] co assms(3)
  obtain selected_idx where sel: "selected_idx < length (seeds s1)" "seeds s1 ! selected_idx = seed"
      "selected_idx < length (seed_staleness s1)"
      "s' = s1\<lparr> seed_staleness :=
                  (map (\<lambda>x. np_add x (Fin 1)) (seed_staleness s1))[selected_idx := Fin 0] \<rparr>"
    by auto
  have st': "seed_staleness s' = (map (\<lambda>x. np_add x (Fin 1)) (seed_staleness s))[selected_idx := Fin 0]"
    using sel(4) st by simp
  show ?thesis
  proof (intro exI [of _ selected_idx] conjI allI impI)
    show "selected_idx < length (seeds s)" using sel(1) sd by simp
    show "seeds s ! selected_idx = seed" using sel(2) sd by simp
    show "selected_idx < length (seed_staleness s')" using sel(3) st st' by simp
    show "length (seed_staleness s') = length (seed_staleness s)" using st' by simp
    show "seed_staleness s' ! selected_idx = Fin 0" using sel(3) st st' by simp
  next
    fix j assume "j < length (seed_staleness s)" "j \<noteq> selected_idx"
    then show "seed_staleness s' ! j = np_add (seed_staleness s ! j) (Fin 1)"
      using st' by simp
  qed
qed


text \<open>
  A first call of \<^verbatim>\<open>sample\<close> on a new sampler with two seeds: both are unseen, the uniform
  draw \<open>0.7\<close> selects the second.
\<close>

lemma sample_unseen_example:
  "snd (sample (init_sampler [10, 11] 4 1 ''gae'' ''fixed'' ''power'' 1 (1/20) (1/5) (1/2) 1 (1/2) ''power'' 1) None
        \<lparr> rand = 9/10, choice_uniform = 7/10, choice_int = 0, max_choice_scores = 0,
          max_choice_staleness = 0 \<rparr>)
     = (Inr 11, (init_sampler [10, 11] 4 1 ''gae'' ''fixed'' ''power'' 1 (1/20) (1/5) (1/2) 1 (1/2) ''power'' 1) \<lparr> seed_staleness := [Fin 1, Fin 0] \<rparr>)"
  by (simp add: init_sampler_def sample_def effective_strategy_def Let_def proportion_seen_def
        np_ge_def np_gt_def np_eq_def sample_unseen_level_def draw_level_def random_choice_p_def
        np_sum_def np_sub_def np_le_def getitem_def update_staleness_def)

theorem staleness_reset_witness:
  "\<exists>selected_idx. selected_idx < length (seeds (init_sampler [10, 11] 4 1 ''gae'' ''fixed'' ''power'' 1 (1/20) (1/5) (1/2) 1 (1/2) ''power'' 1))
      \<and> seeds (init_sampler [10, 11] 4 1 ''gae'' ''fixed'' ''power'' 1 (1/20) (1/5) (1/2) 1 (1/2) ''power'' 1) ! selected_idx = 11
      \<and> selected_idx < length (seed_staleness ((init_sampler [10, 11] 4 1 ''gae'' ''fixed'' ''power'' 1 (1/20) (1/5) (1/2) 1 (1/2) ''power'' 1) \<lparr> seed_staleness := [Fin 1, Fin 0] \<rparr>))
      \<and> length (seed_staleness ((init_sampler [10, 11] 4 1 ''gae'' ''fixed'' ''power'' 1 (1/20) (1/5) (1/2) 1 (1/2) ''power'' 1) \<lparr> seed_staleness := [Fin 1, Fin 0] \<rparr>))
          = length (seed_staleness (init_sampler [10, 11] 4 1 ''gae'' ''fixed'' ''power'' 1 (1/20) (1/5) (1/2) 1 (1/2) ''power'' 1))
      \<and> seed_staleness ((init_sampler [10, 11] 4 1 ''gae'' ''fixed'' ''power'' 1 (1/20) (1/5) (1/2) 1 (1/2) ''power'' 1) \<lparr> seed_staleness := [Fin 1, Fin 0] \<rparr>) ! selected_idx = Fin 0
      \<and> (\<forall>j < length (seed_staleness (init_sampler [10, 11] 4 1 ''gae'' ''fixed'' ''power'' 1 (1/20) (1/5) (1/2) 1 (1/2) ''power'' 1)). j \<noteq> selected_idx \<longrightarrow>
            seed_staleness ((init_sampler [10, 11] 4 1 ''gae'' ''fixed'' ''power'' 1 (1/20) (1/5) (1/2) 1 (1/2) ''power'' 1) \<lparr> seed_staleness := [Fin 1, Fin 0] \<rparr>) ! j
            = np_add (seed_staleness (init_sampler [10, 11] 4 1 ''gae'' ''fixed'' ''power'' 1 (1/20) (1/5) (1/2) 1 (1/2) ''power'' 1) ! j) (Fin 1))"
proof (rule staleness_reset)
  show "effective_strategy (init_sampler [10, 11] 4 1 ''gae'' ''fixed'' ''power'' 1 (1/20) (1/5) (1/2) 1 (1/2) ''power'' 1) None \<noteq> ''random''"
    by (simp add: init_sampler_def effective_strategy_def)
  show "effective_strategy (init_sampler [10, 11] 4 1 ''gae'' ''fixed'' ''power'' 1 (1/20) (1/5) (1/2) 1 (1/2) ''power'' 1) None \<noteq> ''sequential''"
    by (simp add: init_sampler_def effective_strategy_def)
  show "0 < staleness_coef (init_sampler [10, 11] 4 1 ''gae'' ''fixed'' ''power'' 1 (1/20) (1/5) (1/2) 1 (1/2) ''power'' 1)"
    by (simp add: init_sampler_def)
  show "staleness_transform (init_sampler [10, 11] 4 1 ''gae'' ''fixed'' ''power'' 1 (1/20) (1/5) (1/2) 1 (1/2) ''power'' 1) \<noteq> ''max''"
    by (simp add: init_sampler_def)
  show "snd (sample (init_sampler [10, 11] 4 1 ''gae'' ''fixed'' ''power'' 1 (1/20) (1/5) (1/2) 1 (1/2) ''power'' 1) None
        \<lparr> rand = 9/10, choice_uniform = 7/10, choice_int = 0, max_choice_scores = 0,
          max_choice_staleness = 0 \<rparr>)
     = (Inr 11, (init_sampler [10, 11] 4 1 ''gae'' ''fixed'' ''power'' 1 (1/20) (1/5) (1/2) 1 (1/2) ''power'' 1) \<lparr> seed_staleness := [Fin 1, Fin 0] \<rparr>)"
    by (rule sample_unseen_example)
qed

text \<open>
  The claim as it stands, for every strategy, fails: the strategies \<^verbatim>\<open>random\<close> and
  \<^verbatim>\<open>sequential\<close> return before any update of the staleness. After the call above, a call
  \<^verbatim>\<open>sample('sequential')\<close> returns seed 10 and leaves its staleness at 1.
\<close>

theorem staleness_reset_counterexample:
  "snd (snd (sample (init_sampler [10, 11] 4 1 ''gae'' ''fixed'' ''power'' 1 (1/20) (1/5) (1/2) 1 (1/2) ''power'' 1) None
        \<lparr> rand = 9/10, choice_uniform = 7/10, choice_int = 0, max_choice_scores = 0,
          max_choice_staleness = 0 \<rparr>))
     = (init_sampler [10, 11] 4 1 ''gae'' ''fixed'' ''power'' 1 (1/20) (1/5) (1/2) 1 (1/2) ''power'' 1) \<lparr> seed_staleness := [Fin 1, Fin 0] \<rparr>
   \<and> snd (sample ((init_sampler [10, 11] 4 1 ''gae'' ''fixed'' ''power'' 1 (1/20) (1/5) (1/2) 1 (1/2) ''power'' 1) \<lparr> seed_staleness := [Fin 1, Fin 0] \<rparr>) (Some ''sequential'')
        \<lparr> rand = 9/10, choice_uniform = 7/10, choice_int = 0, max_choice_scores = 0,
          max_choice_staleness = 0 \<rparr>)
     = (Inr 10, (init_sampler [10, 11] 4 1 ''gae'' ''fixed'' ''power'' 1 (1/20) (1/5) (1/2) 1 (1/2) ''power'' 1) \<lparr> seed_staleness := [Fin 1, Fin 0], next_seed_index := 1 \<rparr>)
   \<and> 0 < staleness_coef ((init_sampler [10, 11] 4 1 ''gae'' ''fixed'' ''power'' 1 (1/20) (1/5) (1/2) 1 (1/2) ''power'' 1) \<lparr> seed_staleness := [Fin 1, Fin 0] \<rparr>)
   \<and> seeds (init_sampler [10, 11] 4 1 ''gae'' ''fixed'' ''power'' 1 (1/20) (1/5) (1/2) 1 (1/2) ''power'' 1) ! 0 = 10
   \<and> seed_staleness ((init_sampler [10, 11] 4 1 ''gae'' ''fixed'' ''power'' 1 (1/20) (1/5) (1/2) 1 (1/2) ''power'' 1) \<lparr> seed_staleness := [Fin 1, Fin 0], next_seed_index := 1 \<rparr>) ! 0 \<noteq> Fin 0"
  by (simp add: init_sampler_def sample_def effective_strategy_def Let_def proportion_seen_def
        np_ge_def np_gt_def np_eq_def sample_unseen_level_def draw_level_def random_choice_p_def
        np_sum_def np_sub_def np_le_def getitem_def update_staleness_def)

subsection \<open>The flush of \<^verbatim>\<open>after_update\<close>\<close>

lemma ema_step_Fin: "ema_step a (Fin x) (Fin p) = Fin ((1 - a) * x + a * p)"
  by (simp add: ema_step_def)

lemma setitem2_nth_other:
  "(a', i') \<noteq> (a, i) \<Longrightarrow> setitem2 xss a i v ! a' ! i' = xss ! a' ! i'"
  by (cases "a' = a"; cases "a < length xss") (auto simp: setitem2_def list_update_beyond)

lemma map_length_setitem2: "map length (setitem2 xss a i v) = map length xss"
  by (cases "a < length xss") (auto simp: setitem2_def map_update list_eq_iff_nth_eq nth_list_update)

lemma getitem2_nth:
  "getitem2 xss a i = Inr v \<longleftrightarrow> a < length xss \<and> i < length (xss ! a) \<and> xss ! a ! i = v"
  by (auto simp: getitem2_def getitem_def split: if_splits)

lemma getitem2_in_range:
  "a < length xss \<Longrightarrow> i < length (xss ! a) \<Longrightarrow> getitem2 xss a i = Inr (xss ! a ! i)"
  by (simp add: getitem2_def getitem_def)

lemma same_shape:
  assumes "map length xss' = map length xss"
  shows "length xss' = length xss" and "a < length xss \<Longrightarrow> length (xss' ! a) = length (xss ! a)"
proof -
  show l: "length xss' = length xss" using assms by (metis length_map)
  assume "a < length xss"
  then show "length (xss' ! a) = length (xss ! a)" using assms l by (metis nth_map)
qed

lemma unseen_monotone_refl: "unseen_seed_weights s' = unseen_seed_weights s \<Longrightarrow> unseen_monotone s s'"
  by (simp add: unseen_monotone_def list_all2_same)

lemma unseen_monotone_trans:
  assumes "unseen_monotone s s1" and "unseen_monotone s1 s2"
  shows "unseen_monotone s s2"
proof -
  have "list_all2 (\<lambda>u u'. u' = u \<or> u' = Fin 0) (unseen_seed_weights s) (unseen_seed_weights s2)"
  proof (rule list_all2_trans)
    show "list_all2 (\<lambda>u u'. u' = u \<or> u' = Fin 0) (unseen_seed_weights s) (unseen_seed_weights s1)"
      using assms(1) by (simp add: unseen_monotone_def)
    show "list_all2 (\<lambda>u u'. u' = u \<or> u' = Fin 0) (unseen_seed_weights s1) (unseen_seed_weights s2)"
      using assms(2) by (simp add: unseen_monotone_def)
  next
    fix a b c :: npfloat
    assume "b = a \<or> b = Fin 0" "c = b \<or> c = Fin 0"
    then show "c = a \<or> c = Fin 0" by auto
  qed
  then show ?thesis by (simp add: unseen_monotone_def)
qed

lemma unseen_monotone_update:
  "unseen_seed_weights s1 = (unseen_seed_weights s)[i := Fin 0] \<Longrightarrow> unseen_monotone s s1"
  by (cases "i < length (unseen_seed_weights s)")
    (auto simp: unseen_monotone_def list_all2_conv_all_nth nth_list_update list_update_beyond)

text \<open>The flush of one cell.\<close>

lemma update_seed_score_flush:
  assumes "a < length (partial_seed_scores s)" and "i < length (partial_seed_scores s ! a)"
    and "a < length (partial_seed_steps s)" and "i < length (partial_seed_steps s ! a)"
    and "partial_seed_scores s ! a ! i = Fin p"
    and "partial_seed_steps s ! a ! i \<noteq> 0"
    and "i < length (unseen_seed_weights s)" and "i < length (seed_scores s)"
  shows "update_seed_score s a i (Fin 0) 0 =
           (Inr (),
            s\<lparr> partial_seed_scores := setitem2 (partial_seed_scores s) a i (Fin 0),
               partial_seed_steps := setitem2 (partial_seed_steps s) a i 0,
               unseen_seed_weights := (unseen_seed_weights s)[i := Fin 0],
               seed_scores := (seed_scores s)[i := ema_step (alpha s) (seed_scores s ! i) (Fin p)] \<rparr>)"
  using assms
  by (simp add: update_seed_score_def partial_update_seed_score_def getitem2_in_range getitem_def
      Let_def np_sub_def ema_step_def signed_eq_0_iff)

lemma np_ne_Fin0: "is_fin x \<Longrightarrow> np_ne x (Fin 0) = (x \<noteq> Fin 0)"
  by (cases x) (simp_all add: np_ne_def np_eq_def)

lemma flush_scores_cong:
  assumes "\<forall>(a, i) \<in> set cells. P' ! a ! i = P ! a ! i"
  shows "flush_scores al P' cells sc = flush_scores al P cells sc"
  using assms by (induction cells arbitrary: sc) auto

lemma flush_step:
  assumes f: "flushable s (a, i)" and ne: "partial_seed_scores s ! a ! i \<noteq> Fin 0"
  shows "\<exists>s1. update_seed_score s a i (Fin 0) 0 = (Inr (), s1)
      \<and> seed_scores s1 = (seed_scores s)[i := ema_step (alpha s) (seed_scores s ! i)
                             (partial_seed_scores s ! a ! i)]
      \<and> unseen_seed_weights s1 = (unseen_seed_weights s)[i := Fin 0]
      \<and> partial_seed_scores s1 = setitem2 (partial_seed_scores s) a i (Fin 0)
      \<and> partial_seed_steps s1 = setitem2 (partial_seed_steps s) a i 0
      \<and> alpha s1 = alpha s"
proof -
  from f obtain p where p: "partial_seed_scores s ! a ! i = Fin p"
    by (cases "partial_seed_scores s ! a ! i") (auto simp: flushable_def)
  have "update_seed_score s a i (Fin 0) 0 =
           (Inr (),
            s\<lparr> partial_seed_scores := setitem2 (partial_seed_scores s) a i (Fin 0),
               partial_seed_steps := setitem2 (partial_seed_steps s) a i 0,
               unseen_seed_weights := (unseen_seed_weights s)[i := Fin 0],
               seed_scores := (seed_scores s)[i := ema_step (alpha s) (seed_scores s ! i) (Fin p)] \<rparr>)"
    using f ne p by (intro update_seed_score_flush) (auto simp: flushable_def)
  then show ?thesis using p by simp
qed

lemma flushable_after_step:
  assumes "flushable s c" and "c \<noteq> (a, i)"
    and "partial_seed_scores s1 = setitem2 (partial_seed_scores s) a i (Fin 0)"
    and "partial_seed_steps s1 = setitem2 (partial_seed_steps s) a i 0"
    and "length (unseen_seed_weights s1) = length (unseen_seed_weights s)"
    and "length (seed_scores s1) = length (seed_scores s)"
  shows "flushable s1 c"
proof -
  obtain a' i' where c: "c = (a', i')" by (cases c)
  have ne: "(a', i') \<noteq> (a, i)" using assms(2) c by simp
  have sh1: "map length (partial_seed_scores s1) = map length (partial_seed_scores s)"
    and sh2: "map length (partial_seed_steps s1) = map length (partial_seed_steps s)"
    using assms(3,4) by (simp_all add: map_length_setitem2)
  have v1: "partial_seed_scores s1 ! a' ! i' = partial_seed_scores s ! a' ! i'"
    and v2: "partial_seed_steps s1 ! a' ! i' = partial_seed_steps s ! a' ! i'"
    using assms(3,4) ne by (simp_all add: setitem2_nth_other)
  show ?thesis
    using assms(1) c v1 v2 same_shape [OF sh1] same_shape [OF sh2] assms(5,6)
    by (auto simp: flushable_def)
qed

lemma flush_partials_result:
  assumes "distinct cells" and "\<forall>c \<in> set cells. flushable s c"
  shows "\<exists>s'. flush_partials s cells = (Inr (), s')
      \<and> seed_scores s' = flush_scores (alpha s) (partial_seed_scores s) cells (seed_scores s)
      \<and> map length (partial_seed_scores s') = map length (partial_seed_scores s)
      \<and> map length (partial_seed_steps s') = map length (partial_seed_steps s)
      \<and> unseen_monotone s s'"
  using assms
proof (induction cells arbitrary: s)
  case Nil
  then show ?case by (simp add: unseen_monotone_refl)
next
  case (Cons c cells)
  obtain a i where c: "c = (a, i)" by (cases c)
  have f: "flushable s (a, i)" using Cons.prems(2) c by simp
  then have g: "getitem2 (partial_seed_scores s) a i = Inr (partial_seed_scores s ! a ! i)"
    by (simp add: flushable_def getitem2_in_range)
  have fin: "is_fin (partial_seed_scores s ! a ! i)" using f by (simp add: flushable_def)
  show ?case
  proof (cases "partial_seed_scores s ! a ! i = Fin 0")
    case True
    then have "flush_partials s (c # cells) = flush_partials s cells"
      using g c by (simp add: np_ne_def np_eq_def)
    moreover have "flush_scores (alpha s) (partial_seed_scores s) (c # cells) (seed_scores s)
        = flush_scores (alpha s) (partial_seed_scores s) cells (seed_scores s)"
      using True c by (simp add: np_ne_def np_eq_def)
    ultimately show ?thesis using Cons.IH [of s] Cons.prems by simp
  next
    case False
    from flush_step [OF f False] obtain s1 where
      s1: "update_seed_score s a i (Fin 0) 0 = (Inr (), s1)"
      and sc1: "seed_scores s1 = (seed_scores s)[i := ema_step (alpha s) (seed_scores s ! i)
                             (partial_seed_scores s ! a ! i)]"
      and un1: "unseen_seed_weights s1 = (unseen_seed_weights s)[i := Fin 0]"
      and p1: "partial_seed_scores s1 = setitem2 (partial_seed_scores s) a i (Fin 0)"
      and st1: "partial_seed_steps s1 = setitem2 (partial_seed_steps s) a i 0"
      and al1: "alpha s1 = alpha s"
      by blast
    have notin: "(a, i) \<notin> set cells" using Cons.prems(1) c by simp
    have fl: "\<forall>c' \<in> set cells. flushable s1 c'"
    proof
      fix c' assume c': "c' \<in> set cells"
      then have "c' \<noteq> (a, i)" using notin by auto
      moreover have "flushable s c'" using Cons.prems(2) c' by simp
      ultimately show "flushable s1 c'"
        using flushable_after_step [of s c' a i s1] p1 st1 un1 sc1 by simp
    qed
    have d: "distinct cells" using Cons.prems(1) by simp
    from Cons.IH [OF d fl] obtain s' where
      r: "flush_partials s1 cells = (Inr (), s')"
      and sc: "seed_scores s' = flush_scores (alpha s1) (partial_seed_scores s1) cells (seed_scores s1)"
      and sh1: "map length (partial_seed_scores s') = map length (partial_seed_scores s1)"
      and sh2: "map length (partial_seed_steps s') = map length (partial_seed_steps s1)"
      and mono: "unseen_monotone s1 s'"
      by blast
    have cong: "flush_scores (alpha s) (partial_seed_scores s1) cells (seed_scores s1)
        = flush_scores (alpha s) (partial_seed_scores s) cells (seed_scores s1)"
    proof (rule flush_scores_cong, clarify)
      fix a' i' assume "(a', i') \<in> set cells"
      then have "(a', i') \<noteq> (a, i)" using notin by auto
      then show "partial_seed_scores s1 ! a' ! i' = partial_seed_scores s ! a' ! i'"
        unfolding p1 by (rule setitem2_nth_other)
    qed
    have run: "flush_partials s (c # cells) = (Inr (), s')"
      using g c False fin s1 r by (simp add: np_ne_Fin0)
    have spec: "flush_scores (alpha s) (partial_seed_scores s) (c # cells) (seed_scores s)
        = flush_scores (alpha s) (partial_seed_scores s) cells (seed_scores s1)"
      using c False fin sc1 by (simp add: np_ne_Fin0)
    have mono': "unseen_monotone s s'"
      by (rule unseen_monotone_trans [OF unseen_monotone_update [OF un1] mono])
    have sc': "seed_scores s' = flush_scores (alpha s) (partial_seed_scores s) (c # cells) (seed_scores s)"
      unfolding spec sc al1 cong ..
    have sh1': "map length (partial_seed_scores s') = map length (partial_seed_scores s)"
      unfolding sh1 p1 by (rule map_length_setitem2)
    have sh2': "map length (partial_seed_steps s') = map length (partial_seed_steps s)"
      unfolding sh2 st1 by (rule map_length_setitem2)
    show ?thesis
      by (intro exI [of _ s'] conjI) (rule run, rule sc', rule sh1', rule sh2', rule mono')
  qed
qed


lemma length_flush_scores: "length (flush_scores al P cells sc) = length sc"
  by (induction cells arbitrary: sc) auto

lemma flush_scores_nth:
  assumes "i < length sc"
  shows "flush_scores al P cells sc ! i
           = foldl (ema_step al) (sc ! i)
               (map (\<lambda>(a, i'). P ! a ! i')
                  (filter (\<lambda>(a, i'). i' = i \<and> np_ne (P ! a ! i') (Fin 0)) cells))"
  using assms
proof (induction cells arbitrary: sc)
  case Nil
  then show ?case by simp
next
  case (Cons c cells)
  obtain a i' where c: "c = (a, i')" by (cases c)
  show ?case
  proof (cases "np_ne (P ! a ! i') (Fin 0)")
    case False
    then show ?thesis using Cons c by simp
  next
    case True
    let ?sc = "sc[i' := ema_step al (sc ! i') (P ! a ! i')]"
    have len: "i < length ?sc" using Cons.prems by simp
    have "flush_scores al P (c # cells) sc ! i = flush_scores al P cells ?sc ! i"
      using True c by simp
    also have "\<dots> = foldl (ema_step al) (?sc ! i)
               (map (\<lambda>(a, i'). P ! a ! i')
                  (filter (\<lambda>(a, i'). i' = i \<and> np_ne (P ! a ! i') (Fin 0)) cells))"
      by (rule Cons.IH [OF len])
    finally show ?thesis using True c Cons.prems by (cases "i' = i") simp_all
  qed
qed

lemma filter_eq_upt: "i < n \<Longrightarrow> filter (\<lambda>i'. i' = i) [0..<n] = [i]"
  by (induction n) (auto simp: less_Suc_eq)

lemma filter_product_column:
  assumes "i < n"
  shows "map (\<lambda>(a, i'). P ! a ! i')
           (filter (\<lambda>(a, i'). i' = i \<and> Q a i') (List.product as [0..<n]))
         = map (\<lambda>a. P ! a ! i) (filter (\<lambda>a. Q a i) as)"
proof (induction as)
  case Nil
  then show ?case by simp
next
  case (Cons a as)
  have "filter (\<lambda>(a, i'). i' = i \<and> Q a i') (map (Pair a) [0..<n])
          = map (Pair a) (filter (\<lambda>i'. i' = i \<and> Q a i') [0..<n])"
    by (simp add: filter_map comp_def)
  also have "filter (\<lambda>i'. i' = i \<and> Q a i') [0..<n] = filter (\<lambda>i'. Q a i') (filter (\<lambda>i'. i' = i) [0..<n])"
    by (simp add: conj_commute)
  also have "\<dots> = (if Q a i then [i] else [])"
    using assms by (simp add: filter_eq_upt)
  finally have "filter (\<lambda>(a, i'). i' = i \<and> Q a i') (map (Pair a) [0..<n])
          = (if Q a i then [(a, i)] else [])" by simp
  then show ?case using Cons by simp
qed

lemma filter_upt_single:
  assumes "w < n" and "Q w" and "\<forall>a < n. a \<noteq> w \<longrightarrow> \<not> Q a"
  shows "filter Q [0..<n] = [w]"
  using assms
proof (induction n)
  case 0
  then show ?case by simp
next
  case (Suc n)
  show ?case
  proof (cases "w = n")
    case True
    then have "filter Q [0..<n] = []" using Suc.prems(3) by (auto simp: filter_empty_conv)
    then show ?thesis using True Suc.prems(2) by simp
  next
    case False
    then have "w < n" using Suc.prems(1) by simp
    moreover have "\<not> Q n" using Suc.prems(3) False by auto
    ultimately show ?thesis using Suc by simp
  qed
qed

lemma wf_sampler_rows:
  assumes "wf_sampler s" and "a < length (partial_seed_scores s)"
  shows "length (partial_seed_scores s ! a) = length (seeds s)"
    and "length (partial_seed_steps s ! a) = length (seeds s)"
    and "a < length (partial_seed_steps s)"
    and "width (partial_seed_scores s) = length (seeds s)"
proof -
  show "length (partial_seed_scores s ! a) = length (seeds s)"
    using assms by (simp add: wf_sampler_def list_all_length)
  show "a < length (partial_seed_steps s)" using assms by (simp add: wf_sampler_def)
  then show "length (partial_seed_steps s ! a) = length (seeds s)"
    using assms by (simp add: wf_sampler_def list_all_length)
  have "partial_seed_scores s \<noteq> []" using assms(2) by auto
  then show "width (partial_seed_scores s) = length (seeds s)"
    using assms(1) by (cases "partial_seed_scores s") (simp_all add: wf_sampler_def width_def)
qed

text \<open>
  Claim C7, amended. In a sampler with the shapes of \<^verbatim>\<open>__init__\<close>, finite partial scores
  and a non-zero step count wherever the partial score is not zero, \<^verbatim>\<open>after_update\<close> raises
  nothing, leaves every accumulator at exactly \<open>(0, 0)\<close>, and gives the score of every seed
  one EMA step \<open>(1 - alpha) * old + alpha * p\<close> for each actor whose partial score \<open>p\<close> for
  that seed is not zero, in the order of the actors: exactly one step with \<open>p\<close> when \<open>w\<close> is
  the only such actor. A partial score that is exactly zero is cleared without an EMA
  step.
\<close>

theorem after_update_flush:
  assumes wf: "wf_sampler s"
    and fin: "\<forall>a < length (partial_seed_scores s). \<forall>i < length (seeds s).
                is_fin (partial_seed_scores s ! a ! i)"
    and steps: "\<forall>a < length (partial_seed_scores s). \<forall>i < length (seeds s).
                partial_seed_scores s ! a ! i \<noteq> Fin 0 \<longrightarrow> partial_seed_steps s ! a ! i \<noteq> 0"
  shows "\<exists>s'. after_update s = (Inr (), s')
      \<and> (\<forall>a < length (partial_seed_scores s). \<forall>i < length (seeds s).
            getitem2 (partial_seed_scores s') a i = Inr (Fin 0)
            \<and> getitem2 (partial_seed_steps s') a i = Inr 0)
      \<and> (\<forall>i < length (seeds s).
            seed_scores s' ! i
            = foldl (ema_step (alpha s)) (seed_scores s ! i)
                (map (\<lambda>a. partial_seed_scores s ! a ! i)
                   (filter (\<lambda>a. partial_seed_scores s ! a ! i \<noteq> Fin 0)
                      [0..<length (partial_seed_scores s)])))
      \<and> (\<forall>w < length (partial_seed_scores s). \<forall>i < length (seeds s).
            partial_seed_scores s ! w ! i \<noteq> Fin 0
            \<and> (\<forall>a < length (partial_seed_scores s). a \<noteq> w \<longrightarrow> partial_seed_scores s ! a ! i = Fin 0)
            \<longrightarrow> seed_scores s' ! i = ema_step (alpha s) (seed_scores s ! i) (partial_seed_scores s ! w ! i))"
proof -
  let ?P = "partial_seed_scores s"
  let ?R = "length ?P"
  let ?N = "length (seeds s)"
  define cells where "cells = List.product [0..<?R] [0..<width ?P]"
  have cells_in: "a < ?R \<and> i < ?N" if "(a, i) \<in> set cells" for a i
    using that wf_sampler_rows(4) [OF wf, of a] by (auto simp: cells_def)
  have d: "distinct cells" by (simp add: cells_def distinct_product)
  have fl: "\<forall>c \<in> set cells. flushable s c"
  proof
    fix c assume c: "c \<in> set cells"
    obtain a i where ai: "c = (a, i)" by (cases c)
    have r: "a < ?R" "i < ?N" using cells_in c ai by auto
    show "flushable s c"
      using r wf_sampler_rows [OF wf r(1)] fin steps wf
      by (simp add: flushable_def ai wf_sampler_def)
  qed
  from flush_partials_result [OF d fl] obtain s1 where
    r: "flush_partials s cells = (Inr (), s1)"
    and sc: "seed_scores s1 = flush_scores (alpha s) ?P cells (seed_scores s)"
    and sh1: "map length (partial_seed_scores s1) = map length ?P"
    and sh2: "map length (partial_seed_steps s1) = map length (partial_seed_steps s)"
    by blast
  define s' where "s' = s1\<lparr> partial_seed_scores := map (map (\<lambda>x. Fin 0)) (partial_seed_scores s1),
               partial_seed_steps := map (map (\<lambda>n. 0)) (partial_seed_steps s1) \<rparr>"
  have run: "after_update s = (Inr (), s')"
    using r by (simp add: after_update_def cells_def s'_def)
  have zero: "getitem2 (partial_seed_scores s') a i = Inr (Fin 0)
            \<and> getitem2 (partial_seed_steps s') a i = Inr 0" if "a < ?R" "i < ?N" for a i
  proof -
    have a2: "a < length (partial_seed_steps s)" using wf that(1) by (simp add: wf_sampler_def)
    have "length (partial_seed_scores s1) = ?R" "length (partial_seed_scores s1 ! a) = ?N"
      using same_shape [OF sh1] that(1) wf_sampler_rows(1) [OF wf that(1)] by simp_all
    moreover have "length (partial_seed_steps s1) = length (partial_seed_steps s)"
        "length (partial_seed_steps s1 ! a) = ?N"
      using same_shape [OF sh2] a2 wf_sampler_rows(2) [OF wf that(1)] by simp_all
    ultimately show ?thesis using that a2 by (simp add: s'_def getitem2_nth)
  qed
  have fold: "seed_scores s' ! i
            = foldl (ema_step (alpha s)) (seed_scores s ! i)
                (map (\<lambda>a. ?P ! a ! i) (filter (\<lambda>a. ?P ! a ! i \<noteq> Fin 0) [0..<?R]))"
    if i: "i < ?N" for i
  proof (cases "?R = 0")
    case True
    then show ?thesis using sc by (simp add: s'_def cells_def)
  next
    case False
    then have w: "width ?P = ?N" using wf_sampler_rows(4) [OF wf, of 0] by simp
    have len: "i < length (seed_scores s)" using wf i by (simp add: wf_sampler_def)
    have "seed_scores s' ! i = flush_scores (alpha s) ?P cells (seed_scores s) ! i"
      using sc by (simp add: s'_def)
    also have "\<dots> = foldl (ema_step (alpha s)) (seed_scores s ! i)
               (map (\<lambda>(a, i'). ?P ! a ! i')
                  (filter (\<lambda>(a, i'). i' = i \<and> np_ne (?P ! a ! i') (Fin 0)) cells))"
      by (rule flush_scores_nth [OF len])
    also have "map (\<lambda>(a, i'). ?P ! a ! i')
                  (filter (\<lambda>(a, i'). i' = i \<and> np_ne (?P ! a ! i') (Fin 0)) cells)
               = map (\<lambda>a. ?P ! a ! i) (filter (\<lambda>a. np_ne (?P ! a ! i) (Fin 0)) [0..<?R])"
      unfolding cells_def w by (rule filter_product_column [OF i])
    also have "filter (\<lambda>a. np_ne (?P ! a ! i) (Fin 0)) [0..<?R]
               = filter (\<lambda>a. ?P ! a ! i \<noteq> Fin 0) [0..<?R]"
      using fin i by (intro filter_cong refl) (simp add: np_ne_Fin0)
    finally show ?thesis .
  qed
  have single: "seed_scores s' ! i = ema_step (alpha s) (seed_scores s ! i) (?P ! w ! i)"
    if "w < ?R" "i < ?N" "?P ! w ! i \<noteq> Fin 0" "\<forall>a < ?R. a \<noteq> w \<longrightarrow> ?P ! a ! i = Fin 0" for w i
  proof -
    have "filter (\<lambda>a. ?P ! a ! i \<noteq> Fin 0) [0..<?R] = [w]"
      using that by (intro filter_upt_single) auto
    then show ?thesis using fold [OF that(2)] by simp
  qed
  show ?thesis
    using run zero fold single by (intro exI [of _ s'] conjI allI impI) blast+
qed


theorem after_update_flush_witness:
  "\<exists>s'. after_update ((init_sampler [10, 11] 4 2 ''gae'' ''fixed'' ''power'' 1 (1/20) (1/5) (1/2) (1/2) 0 ''power'' 1)
       \<lparr> seed_scores := [Fin 2, Fin 0], partial_seed_scores := [[Fin 4, Fin 0], [Fin 0, Fin 0]],
         partial_seed_steps := [[2, 0], [0, 0]] \<rparr>) = (Inr (), s')
      \<and> getitem2 (partial_seed_scores s') 0 0 = Inr (Fin 0)
      \<and> getitem2 (partial_seed_steps s') 0 0 = Inr 0
      \<and> seed_scores s' ! 0 = Fin 3"
proof -
  have wf: "wf_sampler ((init_sampler [10, 11] 4 2 ''gae'' ''fixed'' ''power'' 1 (1/20) (1/5) (1/2) (1/2) 0 ''power'' 1)
       \<lparr> seed_scores := [Fin 2, Fin 0], partial_seed_scores := [[Fin 4, Fin 0], [Fin 0, Fin 0]],
         partial_seed_steps := [[2, 0], [0, 0]] \<rparr>)"
    by (simp add: wf_sampler_def init_sampler_def numeral_2_eq_2)
  have fin: "\<forall>a < length (partial_seed_scores ((init_sampler [10, 11] 4 2 ''gae'' ''fixed'' ''power'' 1 (1/20) (1/5) (1/2) (1/2) 0 ''power'' 1)
       \<lparr> seed_scores := [Fin 2, Fin 0], partial_seed_scores := [[Fin 4, Fin 0], [Fin 0, Fin 0]],
         partial_seed_steps := [[2, 0], [0, 0]] \<rparr>)).
      \<forall>i < length (seeds ((init_sampler [10, 11] 4 2 ''gae'' ''fixed'' ''power'' 1 (1/20) (1/5) (1/2) (1/2) 0 ''power'' 1)
       \<lparr> seed_scores := [Fin 2, Fin 0], partial_seed_scores := [[Fin 4, Fin 0], [Fin 0, Fin 0]],
         partial_seed_steps := [[2, 0], [0, 0]] \<rparr>)).
         is_fin (partial_seed_scores ((init_sampler [10, 11] 4 2 ''gae'' ''fixed'' ''power'' 1 (1/20) (1/5) (1/2) (1/2) 0 ''power'' 1)
       \<lparr> seed_scores := [Fin 2, Fin 0], partial_seed_scores := [[Fin 4, Fin 0], [Fin 0, Fin 0]],
         partial_seed_steps := [[2, 0], [0, 0]] \<rparr>) ! a ! i)"
    by (simp add: init_sampler_def less_Suc_eq numeral_2_eq_2)
  have steps: "\<forall>a < length (partial_seed_scores ((init_sampler [10, 11] 4 2 ''gae'' ''fixed'' ''power'' 1 (1/20) (1/5) (1/2) (1/2) 0 ''power'' 1)
       \<lparr> seed_scores := [Fin 2, Fin 0], partial_seed_scores := [[Fin 4, Fin 0], [Fin 0, Fin 0]],
         partial_seed_steps := [[2, 0], [0, 0]] \<rparr>)).
      \<forall>i < length (seeds ((init_sampler [10, 11] 4 2 ''gae'' ''fixed'' ''power'' 1 (1/20) (1/5) (1/2) (1/2) 0 ''power'' 1)
       \<lparr> seed_scores := [Fin 2, Fin 0], partial_seed_scores := [[Fin 4, Fin 0], [Fin 0, Fin 0]],
         partial_seed_steps := [[2, 0], [0, 0]] \<rparr>)).
         partial_seed_scores ((init_sampler [10, 11] 4 2 ''gae'' ''fixed'' ''power'' 1 (1/20) (1/5) (1/2) (1/2) 0 ''power'' 1)
       \<lparr> seed_scores := [Fin 2, Fin 0], partial_seed_scores := [[Fin 4, Fin 0], [Fin 0, Fin 0]],
         partial_seed_steps := [[2, 0], [0, 0]] \<rparr>) ! a ! i \<noteq> Fin 0
         \<longrightarrow> partial_seed_steps ((init_sampler [10, 11] 4 2 ''gae'' ''fixed'' ''power'' 1 (1/20) (1/5) (1/2) (1/2) 0 ''power'' 1)
       \<lparr> seed_scores := [Fin 2, Fin 0], partial_seed_scores := [[Fin 4, Fin 0], [Fin 0, Fin 0]],
         partial_seed_steps := [[2, 0], [0, 0]] \<rparr>) ! a ! i \<noteq> 0"
    by (simp add: init_sampler_def less_Suc_eq numeral_2_eq_2)
  from after_update_flush [OF wf fin steps] obtain s' where
    r: "after_update ((init_sampler [10, 11] 4 2 ''gae'' ''fixed'' ''power'' 1 (1/20) (1/5) (1/2) (1/2) 0 ''power'' 1)
       \<lparr> seed_scores := [Fin 2, Fin 0], partial_seed_scores := [[Fin 4, Fin 0], [Fin 0, Fin 0]],
         partial_seed_steps := [[2, 0], [0, 0]] \<rparr>) = (Inr (), s')"
    and z: "\<forall>a < length (partial_seed_scores ((init_sampler [10, 11] 4 2 ''gae'' ''fixed'' ''power'' 1 (1/20) (1/5) (1/2) (1/2) 0 ''power'' 1)
       \<lparr> seed_scores := [Fin 2, Fin 0], partial_seed_scores := [[Fin 4, Fin 0], [Fin 0, Fin 0]],
         partial_seed_steps := [[2, 0], [0, 0]] \<rparr>)).
      \<forall>i < length (seeds ((init_sampler [10, 11] 4 2 ''gae'' ''fixed'' ''power'' 1 (1/20) (1/5) (1/2) (1/2) 0 ''power'' 1)
       \<lparr> seed_scores := [Fin 2, Fin 0], partial_seed_scores := [[Fin 4, Fin 0], [Fin 0, Fin 0]],
         partial_seed_steps := [[2, 0], [0, 0]] \<rparr>)).
            getitem2 (partial_seed_scores s') a i = Inr (Fin 0)
            \<and> getitem2 (partial_seed_steps s') a i = Inr 0"
    and e: "\<forall>w < length (partial_seed_scores ((init_sampler [10, 11] 4 2 ''gae'' ''fixed'' ''power'' 1 (1/20) (1/5) (1/2) (1/2) 0 ''power'' 1)
       \<lparr> seed_scores := [Fin 2, Fin 0], partial_seed_scores := [[Fin 4, Fin 0], [Fin 0, Fin 0]],
         partial_seed_steps := [[2, 0], [0, 0]] \<rparr>)).
      \<forall>i < length (seeds ((init_sampler [10, 11] 4 2 ''gae'' ''fixed'' ''power'' 1 (1/20) (1/5) (1/2) (1/2) 0 ''power'' 1)
       \<lparr> seed_scores := [Fin 2, Fin 0], partial_seed_scores := [[Fin 4, Fin 0], [Fin 0, Fin 0]],
         partial_seed_steps := [[2, 0], [0, 0]] \<rparr>)).
            partial_seed_scores ((init_sampler [10, 11] 4 2 ''gae'' ''fixed'' ''power'' 1 (1/20) (1/5) (1/2) (1/2) 0 ''power'' 1)
       \<lparr> seed_scores := [Fin 2, Fin 0], partial_seed_scores := [[Fin 4, Fin 0], [Fin 0, Fin 0]],
         partial_seed_steps := [[2, 0], [0, 0]] \<rparr>) ! w ! i \<noteq> Fin 0
            \<and> (\<forall>a < length (partial_seed_scores ((init_sampler [10, 11] 4 2 ''gae'' ''fixed'' ''power'' 1 (1/20) (1/5) (1/2) (1/2) 0 ''power'' 1)
       \<lparr> seed_scores := [Fin 2, Fin 0], partial_seed_scores := [[Fin 4, Fin 0], [Fin 0, Fin 0]],
         partial_seed_steps := [[2, 0], [0, 0]] \<rparr>)). a \<noteq> w \<longrightarrow>
                  partial_seed_scores ((init_sampler [10, 11] 4 2 ''gae'' ''fixed'' ''power'' 1 (1/20) (1/5) (1/2) (1/2) 0 ''power'' 1)
       \<lparr> seed_scores := [Fin 2, Fin 0], partial_seed_scores := [[Fin 4, Fin 0], [Fin 0, Fin 0]],
         partial_seed_steps := [[2, 0], [0, 0]] \<rparr>) ! a ! i = Fin 0)
            \<longrightarrow> seed_scores s' ! i
                = ema_step (alpha ((init_sampler [10, 11] 4 2 ''gae'' ''fixed'' ''power'' 1 (1/20) (1/5) (1/2) (1/2) 0 ''power'' 1)
       \<lparr> seed_scores := [Fin 2, Fin 0], partial_seed_scores := [[Fin 4, Fin 0], [Fin 0, Fin 0]],
         partial_seed_steps := [[2, 0], [0, 0]] \<rparr>)) (seed_scores ((init_sampler [10, 11] 4 2 ''gae'' ''fixed'' ''power'' 1 (1/20) (1/5) (1/2) (1/2) 0 ''power'' 1)
       \<lparr> seed_scores := [Fin 2, Fin 0], partial_seed_scores := [[Fin 4, Fin 0], [Fin 0, Fin 0]],
         partial_seed_steps := [[2, 0], [0, 0]] \<rparr>) ! i)
                    (partial_seed_scores ((init_sampler [10, 11] 4 2 ''gae'' ''fixed'' ''power'' 1 (1/20) (1/5) (1/2) (1/2) 0 ''power'' 1)
       \<lparr> seed_scores := [Fin 2, Fin 0], partial_seed_scores := [[Fin 4, Fin 0], [Fin 0, Fin 0]],
         partial_seed_steps := [[2, 0], [0, 0]] \<rparr>) ! w ! i)"
    by blast
  have "getitem2 (partial_seed_scores s') 0 0 = Inr (Fin 0) \<and> getitem2 (partial_seed_steps s') 0 0 = Inr 0"
    using z by (simp add: init_sampler_def)
  moreover have "seed_scores s' ! 0 = Fin 3"
    using e [rule_format, of 0 0] by (simp add: init_sampler_def ema_step_def less_Suc_eq numeral_2_eq_2)
  ultimately show ?thesis using r by blast
qed

text \<open>
  The claim as it stands, for every accumulator with \<open>n > 0\<close> steps, fails when the partial
  score is 0: after an episode of score 10 (the score of the seed is 5) and a segment of
  3 steps with score 0, \<^verbatim>\<open>after_update\<close> leaves the score at 5, not at the \<open>5 / 2\<close> of an EMA
  step, and the sampler is as it was before the segment.
\<close>

theorem after_update_flush_counterexample:
  "getitem2 (partial_seed_scores (snd (partial_update_seed_score
          (snd (update_seed_score (init_sampler [10] 4 1 ''gae'' ''fixed'' ''power'' 1 (1/20) (1/5) (1/2) (1/2) 0 ''power'' 1) 0 0 (Fin 10) 4))
          0 0 (Fin 0) 3 False))) 0 0 = Inr (Fin 0)
   \<and> getitem2 (partial_seed_steps (snd (partial_update_seed_score
          (snd (update_seed_score (init_sampler [10] 4 1 ''gae'' ''fixed'' ''power'' 1 (1/20) (1/5) (1/2) (1/2) 0 ''power'' 1) 0 0 (Fin 10) 4))
          0 0 (Fin 0) 3 False))) 0 0 = Inr 3
   \<and> seed_scores (snd (partial_update_seed_score
          (snd (update_seed_score (init_sampler [10] 4 1 ''gae'' ''fixed'' ''power'' 1 (1/20) (1/5) (1/2) (1/2) 0 ''power'' 1) 0 0 (Fin 10) 4))
          0 0 (Fin 0) 3 False)) = [Fin 5]
   \<and> alpha (snd (partial_update_seed_score
          (snd (update_seed_score (init_sampler [10] 4 1 ''gae'' ''fixed'' ''power'' 1 (1/20) (1/5) (1/2) (1/2) 0 ''power'' 1) 0 0 (Fin 10) 4))
          0 0 (Fin 0) 3 False)) = 1 / 2
   \<and> after_update (snd (partial_update_seed_score
          (snd (update_seed_score (init_sampler [10] 4 1 ''gae'' ''fixed'' ''power'' 1 (1/20) (1/5) (1/2) (1/2) 0 ''power'' 1) 0 0 (Fin 10) 4))
          0 0 (Fin 0) 3 False))
       = (Inr (), snd (update_seed_score (init_sampler [10] 4 1 ''gae'' ''fixed'' ''power'' 1 (1/20) (1/5) (1/2) (1/2) 0 ''power'' 1) 0 0 (Fin 10) 4))
   \<and> seed_scores (snd (after_update (snd (partial_update_seed_score
          (snd (update_seed_score (init_sampler [10] 4 1 ''gae'' ''fixed'' ''power'' 1 (1/20) (1/5) (1/2) (1/2) 0 ''power'' 1) 0 0 (Fin 10) 4))
          0 0 (Fin 0) 3 False)))) ! 0 = Fin 5
   \<and> ema_step (1 / 2) (Fin 5) (Fin 0) = Fin (5 / 2)"
  by (simp add: init_sampler_def update_seed_score_def partial_update_seed_score_def getitem2_def
      getitem_def setitem2_def np_sub_def Let_def after_update_def width_def np_ne_def np_eq_def
      ema_step_def)

subsection \<open>The unseen flags\<close>








































end
